theory Spec2Isabelle
  imports Main "HOL-Library.Sublist" "HOL-Library.Word"
begin

section \<open>Strings, errors and time\<close>

text \<open>
  Go strings are byte sequences; a \<^typ>\<open>string\<close> is a list of bytes. An \<open>error\<close> value is
  represented by its message (\<open>err.Error()\<close>); \<open>nil\<close> is \<open>None\<close> of \<open>error option\<close>.
\<close>

datatype error = Err (msg: string)

text \<open>\<open>fmt.Errorf(prefix + "%w", err)\<close>: the wrapped error's message follows the prefix.\<close>

definition Errorf_w :: "string \<Rightarrow> error \<Rightarrow> error" where
  "Errorf_w pre e = Err (pre @ msg e)"

text \<open>\<open>strings.Contains(s, sub)\<close>.\<close>

fun Contains :: "string \<Rightarrow> string \<Rightarrow> bool" where
  "Contains [] sub = (sub = [])"
| "Contains (c # cs) sub = (if prefix sub (c # cs) then True else Contains cs sub)"

text \<open>\<open>strings.Split(s, "\n")\<close>: the pieces between the newline bytes, one more than there
  are newlines.\<close>

fun Split_nl :: "string \<Rightarrow> string list" where
  "Split_nl [] = [Nil]"
| "Split_nl (c # cs) =
     (if c = CHR 0x0A then [] # Split_nl cs
      else (case Split_nl cs of [] \<Rightarrow> [c # Nil] | l # ls \<Rightarrow> (c # l) # ls))"

text \<open>\<open>strings.Join(ls, "\n")\<close>: the text that a list of lines stands for. It is not part of
  the code; the properties of the line count are stated with it.\<close>

fun Join_nl :: "string list \<Rightarrow> string" where
  "Join_nl [] = []"
| "Join_nl [l] = l"
| "Join_nl (l # l' # ls) = l @ CHR 0x0A # Join_nl (l' # ls)"

text \<open>
  A \<open>time.Time\<close> is an instant of the wall clock: the number of nanoseconds since
  January 1, year 1, 00:00:00 UTC (the seconds and nanoseconds of Go's representation in one
  number). The zero \<open>Time\<close> is that instant itself. A \<open>time.Duration\<close> is an \<open>int64\<close> count
  of nanoseconds.
\<close>

datatype gotime = Time (abs_ns: int)

type_synonym Duration = int

definition zero_Time :: gotime where
  "zero_Time = Time 0"

definition IsZero :: "gotime \<Rightarrow> bool" where
  "IsZero t = (abs_ns t = 0)"

definition Second :: Duration where
  "Second = 1000000000"

definition Millisecond :: Duration where
  "Millisecond = 1000000"

definition maxDuration :: Duration where
  "maxDuration = 2 ^ 63 - 1"

definition minDuration :: Duration where
  "minDuration = - (2 ^ 63)"

text \<open>Seconds from year 1 to the Unix epoch (\<open>unixToInternal\<close> of package \<open>time\<close>).\<close>

definition unixToInternal :: int where
  "unixToInternal = 62135596800"

text \<open>\<open>time.Unix(0, nsec)\<close> for an \<open>int64\<close> \<open>nsec\<close>.\<close>

definition Unix0 :: "64 word \<Rightarrow> gotime" where
  "Unix0 nsec = Time (unixToInternal * 1000000000 + sint nsec)"

text \<open>\<open>t.UnixNano()\<close>: nanoseconds since the Unix epoch, wrapping around in \<open>int64\<close>.\<close>

definition UnixNano :: "gotime \<Rightarrow> 64 word" where
  "UnixNano t = word_of_int (abs_ns t - unixToInternal * 1000000000)"

text \<open>\<open>t.Sub(u)\<close>: the difference, or the largest (smallest) \<open>Duration\<close> when it does not
  fit.\<close>

definition Sub :: "gotime \<Rightarrow> gotime \<Rightarrow> Duration" where
  "Sub t u =
     (let d = abs_ns t - abs_ns u
      in if d > maxDuration then maxDuration else if d < minDuration then minDuration else d)"

text \<open>Arithmetic on \<open>int64\<close> values wraps around.\<close>

definition wrap64 :: "int \<Rightarrow> int" where
  "wrap64 x = sint (word_of_int x :: 64 word)"

section \<open>Diff statistics (package git)\<close>

record DiffStats =
  Content :: string
  Added :: int
  Removed :: int
  Error :: "error option"

definition empty_DiffStats :: DiffStats where
  "empty_DiffStats = \<lparr>Content = [], Added = 0, Removed = 0, Error = None\<rparr>"

definition IsEmpty :: "DiffStats \<Rightarrow> bool" where
  "IsEmpty d = (Added d = 0 \<and> Removed d = 0 \<and> Content d = [])"

text \<open>\<open>cloneDiffStats\<close> copies the struct behind the pointer; \<open>nil\<close> stays \<open>nil\<close>.\<close>

definition cloneDiffStats :: "DiffStats option \<Rightarrow> DiffStats option" where
  "cloneDiffStats src = (case src of None \<Rightarrow> None | Some d \<Rightarrow> Some d)"

text \<open>The loop of \<open>countDiffStats\<close> over the lines, with the two counters.\<close>

fun countDiffStats_loop :: "string list \<Rightarrow> int \<times> int \<Rightarrow> int \<times> int" where
  "countDiffStats_loop [] (added, removed) = (added, removed)"
| "countDiffStats_loop (line # lines) (added, removed) =
     (if length line = 0 then countDiffStats_loop lines (added, removed)
      else if line ! 0 = CHR ''+'' then
        (if prefix ''+++'' line then countDiffStats_loop lines (added, removed)
         else countDiffStats_loop lines (added + 1, removed))
      else if line ! 0 = CHR ''-'' then
        (if prefix ''---'' line then countDiffStats_loop lines (added, removed)
         else countDiffStats_loop lines (added, removed + 1))
      else countDiffStats_loop lines (added, removed))"

definition countDiffStats :: "string \<Rightarrow> int \<times> int" where
  "countDiffStats content =
     (if content = [] then (0, 0) else countDiffStats_loop (Split_nl content) (0, 0))"

section \<open>Collaborators and the record of their calls\<close>

text \<open>
  Modelled from the spec: the declaration of the struct \<open>git.GitWorktree\<close>, the handle of one
  isolated working copy, is not among the sources. Its fields are the ones that \<open>Diff\<close>, the
  tests and the getters (\<open>GetRepoPath\<close>, \<open>GetWorktreePath\<close>, \<open>GetBranchName\<close>,
  \<open>GetBaseCommitSHA\<close>) name; the status-snapshot cache is \<open>lastDiff\<close> with
  \<open>lastStatusSnapshot\<close>. A getter is the selector of its field.
\<close>

record GitWorktree =
  repoPath :: string
  worktreePath :: string
  sessionName :: string
  branchName :: string
  baseCommitSHA :: string
  lastDiff :: "DiffStats option"
  lastStatusSnapshot :: string
  lastDiffCheckedAt :: gotime

text \<open>
  Everything outside the supervisor (the checkout tool, the pane tool, the file-system watcher,
  the clock, the byte store, timers) is reached through calls. A run records each call with the
  reply it got, in order.
\<close>

datatype call =
    Git_Diff bool
  | Git_Command string "string list"
  | Git_NewGitWorktree string string
  | Git_Setup
  | Git_Cleanup
  | Git_Remove
  | Git_Prune
  | Git_IsDirty
  | Git_CommitChanges string
  | Git_IsBranchCheckedOut
  | Tmux_Restore
  | Tmux_Start string
  | Tmux_Close
  | Tmux_DetachSafely
  | Tmux_DoesSessionExist
  | Watcher_New
  | Watcher_AddRecursive string
  | Watcher_Run
  | Watcher_Cancel
  | Watcher_Wait
  | Watcher_Close
  | Os_Stat string
  | Filepath_Abs string
  | Clipboard_WriteAll string
  | Time_Now
  | Store_SaveInstances "string option"
  | Timer_AfterFunc Duration
  | Timer_Stop

datatype reply =
    R_unit
  | R_err "error option"
  | R_bool bool "error option"
  | R_str string "error option"
  | R_time gotime

type_synonym history = "(call \<times> reply) list"

text \<open>The serialized shape of a session (storage.go).\<close>

type_synonym Status = int

record GitWorktreeData =
  RepoPath :: string
  WorktreePath :: string
  SessionName :: string
  BranchName :: string
  BaseCommitSHA :: string

record DiffStatsData =
  d_Added :: int
  d_Removed :: int
  d_Content :: string

record InstanceData =
  d_Title :: string
  d_Path :: string
  d_Branch :: string
  d_Status :: Status
  d_Height :: int
  d_Width :: int
  d_CreatedAt :: gotime
  d_UpdatedAt :: gotime
  d_AutoYes :: bool
  d_Program :: string
  d_Worktree :: GitWorktreeData
  d_DiffStats :: DiffStatsData

text \<open>
  The environment answers each call from the history of the run so far, so the same call can
  be answered differently at different moments. \<open>env_handle\<close> is the state in which a method of
  the checkout tool whose body is outside the supervisor leaves the handle; \<open>env_marshal\<close> is
  \<open>json.Marshal\<close> on the records and \<open>env_rfc822\<close> is \<open>Format(time.RFC822)\<close>.
\<close>

record env =
  env_err :: "history \<Rightarrow> call \<Rightarrow> error option"
  env_bool :: "history \<Rightarrow> call \<Rightarrow> bool"
  env_str :: "history \<Rightarrow> call \<Rightarrow> string"
  env_time :: "history \<Rightarrow> gotime"
  env_handle :: "history \<Rightarrow> call \<Rightarrow> GitWorktree \<Rightarrow> GitWorktree"
  env_new_worktree :: "history \<Rightarrow> call \<Rightarrow> GitWorktree"
  env_marshal :: "InstanceData list \<Rightarrow> error + string"
  env_rfc822 :: "gotime \<Rightarrow> string"

text \<open>A call without a result (or whose result is dropped) is recorded; the other calls are
  recorded with the answer of the environment, which is their result.\<close>

definition logged :: "call \<Rightarrow> history \<Rightarrow> history" where
  "logged c tr = tr @ [(c, R_unit)]"

definition call_err :: "env \<Rightarrow> call \<Rightarrow> history \<Rightarrow> error option \<times> history" where
  "call_err E c tr = (env_err E tr c, tr @ [(c, R_err (env_err E tr c))])"

definition call_bool :: "env \<Rightarrow> call \<Rightarrow> history \<Rightarrow> bool \<times> error option \<times> history" where
  "call_bool E c tr =
     (env_bool E tr c, env_err E tr c, tr @ [(c, R_bool (env_bool E tr c) (env_err E tr c))])"

definition call_str :: "env \<Rightarrow> call \<Rightarrow> history \<Rightarrow> string \<times> error option \<times> history" where
  "call_str E c tr =
     (env_str E tr c, env_err E tr c, tr @ [(c, R_str (env_str E tr c) (env_err E tr c))])"

definition time_Now :: "env \<Rightarrow> history \<Rightarrow> gotime \<times> history" where
  "time_Now E tr = (env_time E tr, tr @ [(Time_Now, R_time (env_time E tr))])"

text \<open>A method of the handle that returns an error, and one that returns a boolean and an
  error.\<close>

definition git_method ::
  "env \<Rightarrow> call \<Rightarrow> GitWorktree \<times> history \<Rightarrow> error option \<times> GitWorktree \<times> history" where
  "git_method E c = (\<lambda>(g, tr).
     (env_err E tr c, env_handle E tr c g, tr @ [(c, R_err (env_err E tr c))]))"

definition git_method_bool ::
  "env \<Rightarrow> call \<Rightarrow> GitWorktree \<times> history \<Rightarrow> bool \<times> error option \<times> GitWorktree \<times> history" where
  "git_method_bool E c = (\<lambda>(g, tr).
     (env_bool E tr c, env_err E tr c, env_handle E tr c g,
      tr @ [(c, R_bool (env_bool E tr c) (env_err E tr c))]))"

text \<open>\<open>g.runGitCommand(dir, args...)\<close>: the output and the error of the checkout tool.\<close>

definition runGitCommand ::
  "env \<Rightarrow> string \<Rightarrow> string list \<Rightarrow> history \<Rightarrow> string \<times> error option \<times> history" where
  "runGitCommand E dir args tr = call_str E (Git_Command dir args) tr"

text \<open>\<open>git.NewGitWorktree(path, title)\<close>: the new handle (its branch name is the second
  result, as the tests of the constructor assert) and the error.\<close>

definition NewGitWorktree ::
  "env \<Rightarrow> string \<Rightarrow> string \<Rightarrow> history \<Rightarrow> GitWorktree \<times> error option \<times> history" where
  "NewGitWorktree E path title tr =
     (env_new_worktree E tr (Git_NewGitWorktree path title),
      env_err E tr (Git_NewGitWorktree path title),
      tr @ [(Git_NewGitWorktree path title, R_err (env_err E tr (Git_NewGitWorktree path title)))])"

text \<open>A call either returns or panics (a method reached through a \<open>nil\<close> handle).\<close>

datatype 'a outcome = Panicked | Returned 'a

section \<open>The diff with its status-snapshot cache (package git)\<close>

text \<open>Modelled from the spec: \<open>NewGitWorktreeFromStorage\<close> is not among the sources; it
  builds the handle from the five stored fields, with an empty cache.\<close>

definition NewGitWorktreeFromStorage ::
  "string \<Rightarrow> string \<Rightarrow> string \<Rightarrow> string \<Rightarrow> string \<Rightarrow> GitWorktree" where
  "NewGitWorktreeFromStorage repo wt session branch sha =
     \<lparr>repoPath = repo, worktreePath = wt, sessionName = session, branchName = branch,
      baseCommitSHA = sha, lastDiff = None, lastStatusSnapshot = [],
      lastDiffCheckedAt = zero_Time\<rparr>"

text \<open>Modelled from the spec: \<open>InvalidateDiffCache\<close> is not among the sources. ``An
  externally-triggered cache invalidation must clear both \<open>lastDiff\<close> and \<open>last_snapshot\<close>.''\<close>

definition InvalidateDiffCache :: "GitWorktree \<Rightarrow> GitWorktree" where
  "InvalidateDiffCache g = g\<lparr>lastDiff := None, lastStatusSnapshot := []\<rparr>"

text \<open>
  \<open>Diff(force)\<close>, in three parts. The entry into the method is recorded (\<open>Git_Diff force\<close>),
  then the body runs; through a \<open>nil\<close> handle the first access to a field panics. The cached
  result is returned when \<open>force\<close> is false, \<open>lastDiff\<close> is not \<open>nil\<close> (its copy is then not
  \<open>nil\<close> either) and the status signature is the stored one.
\<close>

text \<open>The intent-to-add step: with untracked entries in the status, \<open>add -N .\<close> and the status
  again. The result is the error, if any, and the status signature.\<close>

definition Diff_untracked ::
  "env \<Rightarrow> GitWorktree \<Rightarrow> string \<Rightarrow> history \<Rightarrow> error option \<times> string \<times> history" where
  "Diff_untracked E g statusOutput tr =
     (if Contains statusOutput ''?? ''
      then (case runGitCommand E (worktreePath g) [''add'', ''-N'', ''.''] tr of
              (_, Some err, tr1) \<Rightarrow> (Some err, statusOutput, tr1)
            | (_, None, tr1) \<Rightarrow>
               (case runGitCommand E (worktreePath g) [''status'', ''--porcelain''] tr1 of
                  (_, Some err, tr2) \<Rightarrow> (Some err, statusOutput, tr2)
                | (statusOutput', None, tr2) \<Rightarrow> (None, statusOutput', tr2)))
      else (None, statusOutput, tr))"

text \<open>The diff against the base revision, its line counts, and the new snapshot cache.\<close>

definition Diff_compute ::
  "env \<Rightarrow> GitWorktree \<Rightarrow> string \<Rightarrow> history \<Rightarrow> DiffStats \<times> GitWorktree \<times> history" where
  "Diff_compute E g statusSignature tr =
     (case runGitCommand E (worktreePath g) [''--no-pager'', ''diff'', baseCommitSHA g] tr of
        (_, Some err, tr1) \<Rightarrow> (empty_DiffStats\<lparr>Error := Some err\<rparr>, g, tr1)
      | (content, None, tr1) \<Rightarrow>
          (case countDiffStats content of
             (added, removed) \<Rightarrow>
               let stats = empty_DiffStats\<lparr>Added := added, Removed := removed, Content := content\<rparr>
               in (stats,
                   g\<lparr>lastStatusSnapshot := statusSignature,
                     lastDiff := cloneDiffStats (Some stats)\<rparr>,
                   tr1)))"

definition Diff ::
  "env \<Rightarrow> bool \<Rightarrow> GitWorktree option \<times> history
     \<Rightarrow> DiffStats outcome \<times> GitWorktree option \<times> history" where
  "Diff E force = (\<lambda>(gopt, tr0).
     let tr = logged (Git_Diff force) tr0 in
     case gopt of
       None \<Rightarrow> (Panicked, None, tr)
     | Some g \<Rightarrow>
        (case runGitCommand E (worktreePath g) [''status'', ''--porcelain''] tr of
           (_, Some err, tr1) \<Rightarrow> (Returned (empty_DiffStats\<lparr>Error := Some err\<rparr>), Some g, tr1)
         | (statusOutput, None, tr1) \<Rightarrow>
            (case time_Now E tr1 of
               (now, tr2) \<Rightarrow>
                 let g1 = g\<lparr>lastDiffCheckedAt := now\<rparr> in
                 case (if \<not> force \<and> statusOutput = lastStatusSnapshot g1
                       then cloneDiffStats (lastDiff g1) else None) of
                   Some d \<Rightarrow> (Returned d, Some g1, tr2)
                 | None \<Rightarrow>
                    (case Diff_untracked E g1 statusOutput tr2 of
                       (Some err, _, tr3) \<Rightarrow>
                         (Returned (empty_DiffStats\<lparr>Error := Some err\<rparr>), Some g1, tr3)
                     | (None, statusSignature, tr3) \<Rightarrow>
                         (case Diff_compute E g1 statusSignature tr3 of
                            (stats, g2, tr4) \<Rightarrow> (Returned stats, Some g2, tr4))))))"

section \<open>The session (instance.go)\<close>

definition Running :: Status where "Running = 0"
definition Ready :: Status where "Ready = 1"
definition Loading :: Status where "Loading = 2"
definition Paused :: Status where "Paused = 3"

definition diffRefreshInterval :: Duration where
  "diffRefreshInterval = 5 * Second"

text \<open>Modelled from the spec: package \<open>tmux\<close>, with the handle of the pane, is not among the
  sources; \<open>NewTmuxSession\<close> keeps the name and the program, and the methods of the handle are
  calls that the environment answers.\<close>

record TmuxSession =
  tmux_name :: string
  tmux_program :: string

definition NewTmuxSession :: "string \<Rightarrow> string \<Rightarrow> TmuxSession" where
  "NewTmuxSession name program = \<lparr>tmux_name = name, tmux_program = program\<rparr>"

text \<open>
  The \<open>Instance\<close> struct. The atomics are plain fields (one operation runs at a time), the
  mutex and the wait group carry no data, and of the watcher, its context and its cancel
  function only whether they are \<open>nil\<close> is kept. A \<open>nil\<close> pointer is \<open>None\<close>.
\<close>

record Instance =
  Title :: string
  Path :: string
  Branch :: string
  Status :: Status
  Program :: string
  Height :: int
  Width :: int
  CreatedAt :: gotime
  UpdatedAt :: gotime
  AutoYes :: bool
  Prompt :: string
  diffStats :: "DiffStats option"
  diffDirty :: bool
  previewDirty :: bool
  lastDiffCheck :: "64 word"
  diffWatcher :: bool
  diffWatcherDisabled :: bool
  diffWatchCtx :: bool
  diffWatchCancel :: bool
  started :: bool
  tmuxSession :: "TmuxSession option"
  gitWorktree :: "GitWorktree option"

text \<open>The zero value \<open>Instance{}\<close>.\<close>

definition zero_Instance :: Instance where
  "zero_Instance =
     \<lparr>Title = [], Path = [], Branch = [], Status = 0, Program = [], Height = 0, Width = 0,
      CreatedAt = zero_Time, UpdatedAt = zero_Time, AutoYes = False, Prompt = [],
      diffStats = None, diffDirty = False, previewDirty = False, lastDiffCheck = 0,
      diffWatcher = False, diffWatcherDisabled = False, diffWatchCtx = False,
      diffWatchCancel = False, started = False, tmuxSession = None, gitWorktree = None\<rparr>"

record InstanceOptions =
  o_Title :: string
  o_Path :: string
  o_Program :: string
  o_AutoYes :: bool

definition NewInstance ::
  "env \<Rightarrow> InstanceOptions \<Rightarrow> history \<Rightarrow> (error + Instance) \<times> history" where
  "NewInstance E opts tr =
     (case time_Now E tr of (t, tr1) \<Rightarrow>
        (case call_str E (Filepath_Abs (o_Path opts)) tr1 of
           (_, Some err, tr2) \<Rightarrow> (Inl (Errorf_w ''failed to get absolute path: '' err), tr2)
         | (absPath, None, tr2) \<Rightarrow>
            (Inr (zero_Instance
                   \<lparr>Title := o_Title opts, Status := Ready, Path := absPath,
                    Program := o_Program opts, Height := 0, Width := 0, CreatedAt := t,
                    UpdatedAt := t, AutoYes := False, previewDirty := True, diffDirty := True,
                    lastDiffCheck := 0\<rparr>),
             tr2)))"

definition SetStatus :: "Status \<Rightarrow> Instance \<Rightarrow> Instance" where
  "SetStatus status i = i\<lparr>Status := status\<rparr>"

definition Started :: "Instance \<Rightarrow> bool" where
  "Started i = started i"

definition is_Paused :: "Instance \<Rightarrow> bool" where
  "is_Paused i = (Status i = Paused)"

definition MarkPreviewDirty :: "Instance \<Rightarrow> Instance" where
  "MarkPreviewDirty i = i\<lparr>previewDirty := True\<rparr>"

definition IsPreviewDirty :: "Instance \<Rightarrow> bool" where
  "IsPreviewDirty i = previewDirty i"

definition MarkDiffDirty :: "Instance \<Rightarrow> Instance" where
  "MarkDiffDirty i =
     (let i1 = i\<lparr>diffDirty := True\<rparr> in
      case gitWorktree i1 of
        None \<Rightarrow> i1
      | Some g \<Rightarrow> i1\<lparr>gitWorktree := Some (InvalidateDiffCache g)\<rparr>)"

text \<open>\<open>GetBranch\<close>: the branch name and the session with its \<open>Branch\<close> field synchronised.\<close>

definition GetBranch :: "Instance \<Rightarrow> string \<times> Instance" where
  "GetBranch i =
     (case gitWorktree i of
        None \<Rightarrow> (Branch i, i)
      | Some g \<Rightarrow> (branchName g, i\<lparr>Branch := branchName g\<rparr>))"

definition combineErrors :: "error list \<Rightarrow> error option" where
  "combineErrors errs =
     (if length errs = 0 then None
      else if length errs = 1 then Some (errs ! 0)
      else Some (Err (foldl (\<lambda>errMsg err. errMsg @ [CHR 0x0A] @ ''  - '' @ msg err)
                              ''multiple cleanup errors occurred:'' errs)))"

text \<open>The errors collected so far, with one more when a step failed.\<close>

definition append_failure :: "error list \<Rightarrow> string \<Rightarrow> error option \<Rightarrow> error list" where
  "append_failure errs pre r = (case r of None \<Rightarrow> errs | Some err \<Rightarrow> errs @ [Errorf_w pre err])"

definition stopDiffWatcher ::
  "env \<Rightarrow> Instance \<times> history \<Rightarrow> error option \<times> Instance \<times> history" where
  "stopDiffWatcher E = (\<lambda>(i, tr).
     let tr1 = (if diffWatchCancel i then logged Watcher_Cancel tr else tr) in
     case (if diffWatcher i
           then (case call_err E Watcher_Close (logged Watcher_Wait tr1) of
                   (None, tr2) \<Rightarrow> ([], tr2)
                 | (Some err, tr2) \<Rightarrow> ([err], tr2))
           else ([], tr1)) of
       (errs, tr3) \<Rightarrow>
         (combineErrors errs,
          i\<lparr>diffWatcher := False, diffWatchCtx := False, diffWatchCancel := False\<rparr>,
          tr3))"

text \<open>\<open>addWatcherRecursive(root)\<close>: nothing without a watcher; otherwise the walk over the
  directories below \<open>root\<close> that adds each one to the watcher is one call, which answers with
  the error of the walk.\<close>

definition addWatcherRecursive ::
  "env \<Rightarrow> string \<Rightarrow> Instance \<times> history \<Rightarrow> error option \<times> history" where
  "addWatcherRecursive E root = (\<lambda>(i, tr).
     if \<not> diffWatcher i then (None, tr) else call_err E (Watcher_AddRecursive root) tr)"

definition startDiffWatcher ::
  "env \<Rightarrow> Instance \<times> history \<Rightarrow> error option \<times> Instance \<times> history" where
  "startDiffWatcher E = (\<lambda>(i, tr).
     case gitWorktree i of
       None \<Rightarrow> (Some (Err ''git worktree not initialized''), i, tr)
     | Some g \<Rightarrow>
        if worktreePath g = [] then (Some (Err ''worktree path not set''), i, tr)
        else
          (case (if diffWatcher i
                 then (case stopDiffWatcher E (i, tr) of (_, i', tr') \<Rightarrow> (i', tr'))
                 else (i, tr)) of
             (i1, tr1) \<Rightarrow>
               (case call_err E Watcher_New tr1 of
                  (Some err, tr2) \<Rightarrow>
                    (None, MarkDiffDirty (i1\<lparr>diffWatcherDisabled := True\<rparr>), tr2)
                | (None, tr2) \<Rightarrow>
                    let i2 = i1\<lparr>diffWatcher := True, diffWatcherDisabled := False,
                                diffWatchCtx := True, diffWatchCancel := True\<rparr>
                    in (case addWatcherRecursive E (worktreePath g) (i2, tr2) of
                          (Some err, tr3) \<Rightarrow>
                            (case call_err E Watcher_Close (logged Watcher_Cancel tr3) of
                               (_, tr4) \<Rightarrow>
                                 (None,
                                  MarkDiffDirty
                                    (i2\<lparr>diffWatcher := False, diffWatchCtx := False,
                                        diffWatchCancel := False,
                                        diffWatcherDisabled := True\<rparr>),
                                  tr4))
                        | (None, tr3) \<Rightarrow>
                            (None, MarkDiffDirty i2, logged Watcher_Run tr3)))))"

definition Kill :: "env \<Rightarrow> Instance \<times> history \<Rightarrow> error option \<times> Instance \<times> history" where
  "Kill E = (\<lambda>(i, tr).
     if \<not> started i then (None, i, tr)
     else
       (case stopDiffWatcher E (i, tr) of
          (werr, i1, tr1) \<Rightarrow>
            let errs1 = append_failure [] ''failed to stop diff watcher: '' werr in
            (case (case tmuxSession i1 of
                     None \<Rightarrow> (errs1, tr1)
                   | Some _ \<Rightarrow>
                      (case call_err E Tmux_Close tr1 of
                         (terr, tr2) \<Rightarrow>
                           (append_failure errs1 ''failed to close tmux session: '' terr, tr2))) of
               (errs2, tr2) \<Rightarrow>
                 (case gitWorktree i1 of
                    None \<Rightarrow> (combineErrors errs2, i1, tr2)
                  | Some g \<Rightarrow>
                     (case git_method E Git_Cleanup (g, tr2) of
                        (gerr, g', tr3) \<Rightarrow>
                          (combineErrors
                             (append_failure errs2 ''failed to cleanup git worktree: '' gerr),
                           i1\<lparr>gitWorktree := Some g'\<rparr>, tr3))))))"

text \<open>
  The deferred function of \<open>Start\<close>. It runs when \<open>Start\<close> returns after the \<open>defer\<close> statement.
  The result of \<open>Start\<close> is not a named result, so the error that \<open>Start\<close> returns is the one of
  its \<open>return\<close> statement: what the deferred function assigns to \<open>setupErr\<close> is lost.
\<close>

definition Start_deferred ::
  "env \<Rightarrow> error option \<times> Instance \<times> history \<Rightarrow> error option \<times> Instance \<times> history" where
  "Start_deferred E = (\<lambda>(setupErr, i, tr).
     case setupErr of
       Some _ \<Rightarrow> (case Kill E (i, tr) of (_, i', tr') \<Rightarrow> (setupErr, i', tr'))
     | None \<Rightarrow> (None, i\<lparr>started := True\<rparr>, tr))"

text \<open>The end of \<open>Start\<close>, from \<open>startDiffWatcher\<close> on.\<close>

definition Start_watch ::
  "env \<Rightarrow> Instance \<times> history \<Rightarrow> error option \<times> Instance \<times> history" where
  "Start_watch E = (\<lambda>(i, tr).
     case startDiffWatcher E (i, tr) of
       (Some err, i1, tr1) \<Rightarrow>
         (Some (Errorf_w ''failed to initialize diff watcher: '' err), i1, tr1)
     | (None, i1, tr1) \<Rightarrow>
         (None,
          SetStatus Running ((MarkDiffDirty (MarkPreviewDirty i1))\<lparr>lastDiffCheck := 0\<rparr>),
          tr1))"

definition Start ::
  "env \<Rightarrow> bool \<Rightarrow> Instance \<times> history \<Rightarrow> error option \<times> Instance \<times> history" where
  "Start E firstTimeSetup = (\<lambda>(i, tr).
     if Title i = [] then (Some (Err ''instance title cannot be empty''), i, tr)
     else
       let tmuxSession' = (case tmuxSession i of
                             Some t \<Rightarrow> t
                           | None \<Rightarrow> NewTmuxSession (Title i) (Program i));
           i1 = i\<lparr>tmuxSession := Some tmuxSession'\<rparr>
       in
       if firstTimeSetup then
         (case NewGitWorktree E (Path i1) (Title i1) tr of
            (_, Some err, tr1) \<Rightarrow>
              (Some (Errorf_w ''failed to create git worktree: '' err), i1, tr1)
          | (g, None, tr1) \<Rightarrow>
              let i2 = i1\<lparr>gitWorktree := Some g, Branch := branchName g\<rparr> in
              Start_deferred E
                (case git_method E Git_Setup (g, tr1) of
                   (Some err, g1, tr2) \<Rightarrow>
                     (Some (Errorf_w ''failed to setup git worktree: '' err),
                      i2\<lparr>gitWorktree := Some g1\<rparr>, tr2)
                 | (None, g1, tr2) \<Rightarrow>
                     (case call_err E (Tmux_Start (worktreePath g1)) tr2 of
                        (Some err, tr3) \<Rightarrow>
                          (case git_method E Git_Cleanup (g1, tr3) of
                             (cleanupErr, g2, tr4) \<Rightarrow>
                               let err' = (case cleanupErr of
                                             None \<Rightarrow> err
                                           | Some ce \<Rightarrow>
                                               Err (msg err @ '' (cleanup error: '' @ msg ce
                                                      @ '')''))
                               in (Some (Errorf_w ''failed to start new session: '' err'),
                                   i2\<lparr>gitWorktree := Some g2\<rparr>, tr4))
                      | (None, tr3) \<Rightarrow> Start_watch E (i2\<lparr>gitWorktree := Some g1\<rparr>, tr3))))
       else
         Start_deferred E
           (case call_err E Tmux_Restore tr of
              (Some err, tr1) \<Rightarrow>
                (Some (Errorf_w ''failed to restore existing session: '' err), i1, tr1)
            | (None, tr1) \<Rightarrow> Start_watch E (snd (GetBranch i1), tr1)))"

text \<open>
  \<open>Pause\<close>, in three parts: up to the commit step, from the detaching of the pane to the
  pruning, and the end. A \<open>nil\<close> handle makes the first method called through it panic.
\<close>

definition Pause_finish ::
  "error list \<Rightarrow> GitWorktree \<Rightarrow> Instance \<times> history
     \<Rightarrow> error option outcome \<times> Instance \<times> history" where
  "Pause_finish errs g = (\<lambda>(i, tr).
     case combineErrors errs of
       Some err \<Rightarrow> (Returned (Some err), i, tr)
     | None \<Rightarrow>
         (Returned None, SetStatus Paused i, logged (Clipboard_WriteAll (branchName g)) tr))"

definition Pause_detach ::
  "env \<Rightarrow> error list \<Rightarrow> Instance \<times> history \<Rightarrow> error option outcome \<times> Instance \<times> history" where
  "Pause_detach E errs = (\<lambda>(i, tr).
     case tmuxSession i of
       None \<Rightarrow> (Panicked, i, tr)
     | Some _ \<Rightarrow>
        (case call_err E Tmux_DetachSafely tr of
           (derr, tr1) \<Rightarrow>
             let errs1 = append_failure errs ''failed to detach tmux session: '' derr in
             (case gitWorktree i of
                None \<Rightarrow> (Panicked, i, tr1)
              | Some g \<Rightarrow>
                 (case call_err E (Os_Stat (worktreePath g)) tr1 of
                    (Some _, tr2) \<Rightarrow> Pause_finish errs1 g (i, tr2)
                  | (None, tr2) \<Rightarrow>
                     (case git_method E Git_Remove (g, tr2) of
                        (Some err, g1, tr3) \<Rightarrow>
                          (Returned (combineErrors
                             (errs1 @ [Errorf_w ''failed to remove git worktree: '' err])),
                           i\<lparr>gitWorktree := Some g1\<rparr>, tr3)
                      | (None, g1, tr3) \<Rightarrow>
                          (case git_method E Git_Prune (g1, tr3) of
                             (Some err, g2, tr4) \<Rightarrow>
                               (Returned (combineErrors
                                  (errs1 @ [Errorf_w ''failed to prune git worktrees: '' err])),
                                i\<lparr>gitWorktree := Some g2\<rparr>, tr4)
                           | (None, g2, tr4) \<Rightarrow>
                               Pause_finish errs1 g2 (i\<lparr>gitWorktree := Some g2\<rparr>, tr4)))))))"

definition Pause ::
  "env \<Rightarrow> Instance \<times> history \<Rightarrow> error option outcome \<times> Instance \<times> history" where
  "Pause E = (\<lambda>(i, tr).
     if \<not> started i
     then (Returned (Some (Err ''cannot pause instance that has not been started'')), i, tr)
     else if Status i = Paused
     then (Returned (Some (Err ''instance is already paused'')), i, tr)
     else
       (case stopDiffWatcher E (i, tr) of
          (werr, i1, tr1) \<Rightarrow>
            let errs = append_failure [] ''failed to stop diff watcher: '' werr in
            (case gitWorktree i1 of
               None \<Rightarrow> (Panicked, i1, tr1)
             | Some g \<Rightarrow>
                (case git_method_bool E Git_IsDirty (g, tr1) of
                   (_, Some err, g1, tr2) \<Rightarrow>
                     Pause_detach E
                       (errs @ [Errorf_w ''failed to check if worktree is dirty: '' err])
                       (i1\<lparr>gitWorktree := Some g1\<rparr>, tr2)
                 | (dirty, None, g1, tr2) \<Rightarrow>
                     if dirty then
                       (case time_Now E tr2 of
                          (now, tr3) \<Rightarrow>
                            let commitMsg = ''[agentsquad] update from '' @ [CHR 0x27] @ Title i1
                                  @ [CHR 0x27] @ '' on '' @ env_rfc822 E now @ '' (paused)''
                            in (case git_method E (Git_CommitChanges commitMsg) (g1, tr3) of
                                  (Some err, g2, tr4) \<Rightarrow>
                                    (Returned (combineErrors
                                       (errs @ [Errorf_w ''failed to commit changes: '' err])),
                                     i1\<lparr>gitWorktree := Some g2\<rparr>, tr4)
                                | (None, g2, tr4) \<Rightarrow>
                                    Pause_detach E errs (i1\<lparr>gitWorktree := Some g2\<rparr>, tr4)))
                     else Pause_detach E errs (i1\<lparr>gitWorktree := Some g1\<rparr>, tr2)))))"

definition UpdateDiffStats ::
  "env \<Rightarrow> gotime \<Rightarrow> Instance \<times> history \<Rightarrow> error option outcome \<times> Instance \<times> history" where
  "UpdateDiffStats E now = (\<lambda>(i, tr).
     if \<not> started i then (Returned None, i\<lparr>diffStats := None\<rparr>, tr)
     else if Status i = Paused then (Returned None, i, tr)
     else
       let dirty = diffDirty i;
           i1 = i\<lparr>diffDirty := False\<rparr>;
           (refresh, force) =
             (if dirty then (True, diffWatcherDisabled i1)
              else if IsZero now then (True, True)
              else (let last = Unix0 (lastDiffCheck i1) in
                    if IsZero last \<or> Sub now last \<ge> diffRefreshInterval then (True, True)
                    else (False, False)))
       in
       if \<not> refresh then (Returned None, i1, tr)
       else
         (case Diff E force (gitWorktree i1, tr) of
            (Panicked, g', tr1) \<Rightarrow> (Panicked, i1\<lparr>gitWorktree := g'\<rparr>, tr1)
          | (Returned stats, g', tr1) \<Rightarrow>
              let i2 = i1\<lparr>gitWorktree := g'\<rparr> in
              (case Error stats of
                 Some err \<Rightarrow>
                   if Contains (msg err) ''base commit SHA not set''
                   then (Returned None, MarkDiffDirty (i2\<lparr>diffStats := None\<rparr>), tr1)
                   else (Returned (Some (Errorf_w ''failed to get diff stats: '' err)),
                         MarkDiffDirty i2, tr1)
               | None \<Rightarrow>
                   (Returned None,
                    i2\<lparr>diffStats := Some stats, lastDiffCheck := UnixNano now\<rparr>, tr1))))"

text \<open>\<open>ToInstanceData\<close>; \<open>UpdatedAt\<close> is the time of the call.\<close>

definition ToInstanceData :: "env \<Rightarrow> Instance \<times> history \<Rightarrow> InstanceData \<times> history" where
  "ToInstanceData E = (\<lambda>(i, tr).
     case time_Now E tr of
       (now, tr1) \<Rightarrow>
         (\<lparr>d_Title = Title i, d_Path = Path i, d_Branch = Branch i, d_Status = Status i,
           d_Height = Height i, d_Width = Width i, d_CreatedAt = CreatedAt i,
           d_UpdatedAt = now, d_AutoYes = AutoYes i, d_Program = Program i,
           d_Worktree =
             (case gitWorktree i of
                None \<Rightarrow> \<lparr>RepoPath = [], WorktreePath = [], SessionName = [], BranchName = [],
                         BaseCommitSHA = []\<rparr>
              | Some g \<Rightarrow> \<lparr>RepoPath = repoPath g, WorktreePath = worktreePath g,
                           SessionName = Title i, BranchName = branchName g,
                           BaseCommitSHA = baseCommitSHA g\<rparr>),
           d_DiffStats =
             (case diffStats i of
                None \<Rightarrow> \<lparr>d_Added = 0, d_Removed = 0, d_Content = []\<rparr>
              | Some d \<Rightarrow> \<lparr>d_Added = Added d, d_Removed = Removed d, d_Content = Content d\<rparr>)\<rparr>,
          tr1))"

definition FromInstanceData ::
  "env \<Rightarrow> InstanceData \<Rightarrow> history \<Rightarrow> (error + Instance) \<times> history" where
  "FromInstanceData E data tr =
     (let instance = zero_Instance
            \<lparr>Title := d_Title data, Path := d_Path data, Branch := d_Branch data,
             Status := d_Status data, Height := d_Height data, Width := d_Width data,
             CreatedAt := d_CreatedAt data, UpdatedAt := d_UpdatedAt data,
             Program := d_Program data,
             gitWorktree := Some (NewGitWorktreeFromStorage
                (RepoPath (d_Worktree data)) (WorktreePath (d_Worktree data))
                (SessionName (d_Worktree data)) (BranchName (d_Worktree data))
                (BaseCommitSHA (d_Worktree data))),
             diffStats := Some \<lparr>Content = d_Content (d_DiffStats data),
                                 Added = d_Added (d_DiffStats data),
                                 Removed = d_Removed (d_DiffStats data), Error = None\<rparr>,
             previewDirty := True, diffDirty := True, lastDiffCheck := 0\<rparr>
      in
      if is_Paused instance
      then (Inr (snd (GetBranch
                   (instance\<lparr>started := True,
                             tmuxSession := Some (NewTmuxSession (Title instance)
                                                    (Program instance))\<rparr>))),
            tr)
      else (case Start E False (instance, tr) of
              (Some err, _, tr1) \<Rightarrow> (Inl err, tr1)
            | (None, i1, tr1) \<Rightarrow> (Inr i1, tr1)))"

section \<open>The registry and its persistence (storage.go)\<close>

text \<open>
  A byte slice is \<open>None\<close> when it is \<open>nil\<close>. The byte store is reached through the call
  \<open>Store_SaveInstances\<close>; the debounce timer, when one is armed, is kept with its delay, and the
  function it runs (\<open>flushPending\<close>) is an operation of its own. The times read by \<open>time.Now()\<close>
  are wall-clock instants.
\<close>

type_synonym bytes = "string option"

definition len :: "bytes \<Rightarrow> nat" where
  "len b = (case b of None \<Rightarrow> 0 | Some xs \<Rightarrow> length xs)"

definition bytes_Equal :: "bytes \<Rightarrow> bytes \<Rightarrow> bool" where
  "bytes_Equal a b =
     ((case a of None \<Rightarrow> [] | Some xs \<Rightarrow> xs) = (case b of None \<Rightarrow> [] | Some ys \<Rightarrow> ys))"

definition cloneBytes :: "bytes \<Rightarrow> bytes" where
  "cloneBytes src = (if len src = 0 then None else src)"

record Storage =
  lastSavedData :: bytes
  lastSaveTime :: gotime
  debounceInterval :: Duration
  pendingData :: bytes
  debounceTimer :: "Duration option"

definition NewStorage :: Storage where
  "NewStorage =
     \<lparr>lastSavedData = None, lastSaveTime = zero_Time, debounceInterval = 5 * Second,
      pendingData = None, debounceTimer = None\<rparr>"

definition writeLocked :: "env \<Rightarrow> bytes \<Rightarrow> history \<Rightarrow> error option \<times> history" where
  "writeLocked E data tr = call_err E (Store_SaveInstances (cloneBytes data)) tr"

text \<open>\<open>if s.debounceTimer != nil { s.debounceTimer.Stop(); s.debounceTimer = nil }\<close>\<close>

definition stop_timer :: "Storage \<times> history \<Rightarrow> Storage \<times> history" where
  "stop_timer = (\<lambda>(s, tr).
     if debounceTimer s \<noteq> None then (s\<lparr>debounceTimer := None\<rparr>, logged Timer_Stop tr)
     else (s, tr))"

definition trackImmediateSave ::
  "bytes \<Rightarrow> gotime \<Rightarrow> Storage \<times> history \<Rightarrow> Storage \<times> history" where
  "trackImmediateSave data now = (\<lambda>(s, tr).
     stop_timer
       (s\<lparr>lastSavedData := cloneBytes data, lastSaveTime := now, pendingData := None\<rparr>, tr))"

text \<open>The loop of \<open>SaveInstances\<close> that converts the started sessions.\<close>

fun SaveInstances_loop ::
  "env \<Rightarrow> Instance list \<Rightarrow> InstanceData list \<times> history \<Rightarrow> InstanceData list \<times> history" where
  "SaveInstances_loop E [] (data, tr) = (data, tr)"
| "SaveInstances_loop E (instance # instances) (data, tr) =
     (if Started instance
      then (case ToInstanceData E (instance, tr) of
              (d, tr1) \<Rightarrow> SaveInstances_loop E instances (data @ [d], tr1))
      else SaveInstances_loop E instances (data, tr))"

text \<open>The part of \<open>SaveInstances\<close> under the mutex, from the bytes \<open>jsonData\<close> on.\<close>

definition SaveInstances_locked ::
  "env \<Rightarrow> string \<Rightarrow> Storage \<times> history \<Rightarrow> error option \<times> Storage \<times> history" where
  "SaveInstances_locked E jsonData = (\<lambda>(s, tr).
     if bytes_Equal (Some jsonData) (lastSavedData s) \<and> pendingData s = None
     then (None, s, tr)
     else
       (case time_Now E tr of
          (now, tr1) \<Rightarrow>
            if IsZero (lastSaveTime s) \<or> Sub now (lastSaveTime s) \<ge> debounceInterval s
            then (case writeLocked E (Some jsonData) tr1 of
                    (Some err, tr2) \<Rightarrow> (Some err, s, tr2)
                  | (None, tr2) \<Rightarrow>
                     (case trackImmediateSave (Some jsonData) now (s, tr2) of
                        (s1, tr3) \<Rightarrow> (None, s1, tr3)))
            else
              let s1 = s\<lparr>pendingData := cloneBytes (Some jsonData)\<rparr> in
              if debounceTimer s1 = None
              then
                let delay = wrap64 (debounceInterval s1 - Sub now (lastSaveTime s1));
                    delay' = (if delay < Second then Second else delay)
                in (None, s1\<lparr>debounceTimer := Some delay'\<rparr>, logged (Timer_AfterFunc delay') tr1)
              else (None, s1, tr1)))"

definition SaveInstances ::
  "env \<Rightarrow> Instance list \<Rightarrow> Storage \<times> history \<Rightarrow> error option \<times> Storage \<times> history" where
  "SaveInstances E instances = (\<lambda>(s, tr).
     case SaveInstances_loop E instances ([], tr) of
       (data, tr1) \<Rightarrow>
         (case env_marshal E data of
            Inl err \<Rightarrow> (Some (Errorf_w ''failed to marshal instances: '' err), s, tr1)
          | Inr jsonData \<Rightarrow> SaveInstances_locked E jsonData (s, tr1)))"

definition Flush :: "env \<Rightarrow> Storage \<times> history \<Rightarrow> error option \<times> Storage \<times> history" where
  "Flush E = (\<lambda>(s, tr).
     if len (pendingData s) = 0 then (None, s, tr)
     else
       let data = cloneBytes (pendingData s) in
       (case writeLocked E data tr of
          (Some err, tr1) \<Rightarrow> (Some err, s, tr1)
        | (None, tr1) \<Rightarrow>
           (case time_Now E tr1 of
              (now, tr2) \<Rightarrow>
                (case stop_timer
                        (s\<lparr>lastSavedData := data, lastSaveTime := now, pendingData := None\<rparr>,
                         tr2) of
                   (s1, tr3) \<Rightarrow> (None, s1, tr3)))))"

text \<open>\<open>flushPending\<close>, the function the debounce timer runs.\<close>

definition flushPending :: "env \<Rightarrow> Storage \<times> history \<Rightarrow> Storage \<times> history" where
  "flushPending E = (\<lambda>(s, tr).
     if len (pendingData s) = 0 then (s\<lparr>debounceTimer := None\<rparr>, tr)
     else
       let data = cloneBytes (pendingData s) in
       (case writeLocked E data tr of
          (Some err, tr1) \<Rightarrow>
            (s\<lparr>debounceTimer := Some (debounceInterval s)\<rparr>,
             logged (Timer_AfterFunc (debounceInterval s)) tr1)
        | (None, tr1) \<Rightarrow>
           (case time_Now E tr1 of
              (now, tr2) \<Rightarrow>
                (s\<lparr>lastSavedData := data, lastSaveTime := now, pendingData := None,
                   debounceTimer := None\<rparr>,
                 tr2))))"

section \<open>Reading a history; example environments and sessions\<close>

text \<open>The \<open>force\<close> arguments of the entries into \<open>Diff\<close> that a history records, in order.\<close>

fun Diff_calls :: "history \<Rightarrow> bool list" where
  "Diff_calls [] = []"
| "Diff_calls ((Git_Diff force, r) # tr) = force # Diff_calls tr"
| "Diff_calls (_ # tr) = Diff_calls tr"

text \<open>The byte slices written to the byte store, in order.\<close>

fun store_writes :: "history \<Rightarrow> bytes list" where
  "store_writes [] = []"
| "store_writes ((Store_SaveInstances b, r) # tr) = b # store_writes tr"
| "store_writes (_ # tr) = store_writes tr"

text \<open>The calls of a history, without the replies.\<close>

definition calls :: "history \<Rightarrow> call list" where
  "calls tr = map fst tr"

text \<open>Nanoseconds since the Unix epoch, as an unbounded number.\<close>

definition unix_ns :: "gotime \<Rightarrow> int" where
  "unix_ns t = abs_ns t - unixToInternal * 1000000000"

text \<open>An environment in which every call succeeds, with empty outputs, and the clock stands
  at 2,000,000,000 seconds after the Unix epoch. The bytes of the empty list of records are
  \<open>[]\<close>; those of any other list stand for its serialization.\<close>

definition calm_env :: env where
  "calm_env =
     \<lparr>env_err = (\<lambda>tr c. None), env_bool = (\<lambda>tr c. False), env_str = (\<lambda>tr c. []),
      env_time = (\<lambda>tr. Time 64135596800000000000), env_handle = (\<lambda>tr c g. g),
      env_new_worktree = (\<lambda>tr c. NewGitWorktreeFromStorage [] [] [] [] []),
      env_marshal = (\<lambda>data. Inr (if data = [] then ''[]'' else ''[{}]'')), env_rfc822 = (\<lambda>t. [])\<rparr>"

text \<open>The same, but the working copy is dirty and committing fails.\<close>

definition commit_fails_env :: env where
  "commit_fails_env =
     calm_env\<lparr>env_bool := (\<lambda>tr c. True),
              env_err := (\<lambda>tr c. case c of Git_CommitChanges m \<Rightarrow> Some (Err ''exit status 1'')
                                   | _ \<Rightarrow> None)\<rparr>"

text \<open>The same as \<open>calm_env\<close>, but every command of the checkout tool fails.\<close>

definition git_fails_env :: env where
  "git_fails_env =
     calm_env\<lparr>env_err := (\<lambda>tr c. case c of Git_Command d a \<Rightarrow> Some (Err ''exit status 128'')
                                   | _ \<Rightarrow> None)\<rparr>"

text \<open>The same as \<open>calm_env\<close>, but one file is modified: the status and the diff of the
  checkout tool are not empty.\<close>

definition modified_env :: env where
  "modified_env =
     calm_env\<lparr>env_str := (\<lambda>tr c. case c of
                    Git_Command d a \<Rightarrow>
                      (if a = [''status'', ''--porcelain''] then '' M file.txt''
                       else ''+++ b/file.txt'' @ [CHR 0x0A] @ ''+change-one'' @ [CHR 0x0A])
                  | _ \<Rightarrow> [])\<rparr>"

text \<open>The same as \<open>calm_env\<close>, but the pane cannot be restored.\<close>

definition restore_fails_env :: env where
  "restore_fails_env =
     calm_env\<lparr>env_err := (\<lambda>tr c. case c of Tmux_Restore \<Rightarrow> Some (Err ''no session'')
                                   | _ \<Rightarrow> None)\<rparr>"

text \<open>The same as \<open>calm_env\<close>, but the byte store refuses every write.\<close>

definition store_refuses_env :: env where
  "store_refuses_env =
     calm_env\<lparr>env_err := (\<lambda>tr c. case c of Store_SaveInstances b \<Rightarrow> Some (Err ''disk full'')
                                   | _ \<Rightarrow> None)\<rparr>"

text \<open>An environment whose clock advances by one millisecond with every recorded call, and in
  which the bytes of a list of records show the \<open>updated_at\<close> of each record: one stroke for
  every millisecond after the start of the clock.\<close>

definition ticking_env :: env where
  "ticking_env =
     calm_env\<lparr>env_time := (\<lambda>tr. Time (64135596800000000000 + 1000000 * int (length tr))),
              env_marshal := (\<lambda>data. Inr (''['' @ concat (map (\<lambda>d. ''{'' @
                  replicate (nat ((abs_ns (d_UpdatedAt d) - 64135596800000000000) div 1000000))
                    CHR ''|'' @ ''}'') data) @ '']''))\<rparr>"

definition example_worktree :: GitWorktree where
  "example_worktree = NewGitWorktreeFromStorage ''/repo'' ''/wt'' ''s'' ''main'' ''abc''"

definition example_stats :: DiffStats where
  "example_stats = \<lparr>Content = ''cached'', Added = 1, Removed = 0, Error = None\<rparr>"

text \<open>A handle whose cache holds \<open>example_stats\<close> for the status of \<open>modified_env\<close>.\<close>

definition cached_worktree :: GitWorktree where
  "cached_worktree =
     example_worktree\<lparr>lastDiff := Some example_stats, lastStatusSnapshot := '' M file.txt''\<rparr>"

text \<open>A started, running session with its handles.\<close>

definition example_session :: Instance where
  "example_session =
     zero_Instance\<lparr>Title := ''s'', Branch := ''old-branch'', Status := Running,
                   started := True, tmuxSession := Some (NewTmuxSession ''s'' ''claude''),
                   gitWorktree := Some example_worktree\<rparr>"

definition example_options :: InstanceOptions where
  "example_options = \<lparr>o_Title = ''s'', o_Path = ''.'', o_Program = ''claude'', o_AutoYes = False\<rparr>"

text \<open>The example session with the cached handle.\<close>

definition cached_session :: Instance where
  "cached_session = example_session\<lparr>gitWorktree := Some cached_worktree\<rparr>"

text \<open>The example session waiting for input (status \<open>Ready\<close>), and what loading its record
  gives in \<open>calm_env\<close>.\<close>

definition ready_session :: Instance where
  "ready_session = example_session\<lparr>Status := Ready\<rparr>"

definition reloaded_session :: Instance where
  "reloaded_session =
     zero_Instance
       \<lparr>Title := ''s'', Branch := ''main'', Status := Running,
        UpdatedAt := Time 64135596800000000000,
        diffStats := Some \<lparr>Content = [], Added = 0, Removed = 0, Error = None\<rparr>,
        diffDirty := True, previewDirty := True, diffWatcher := True, diffWatchCtx := True,
        diffWatchCancel := True, started := True,
        tmuxSession := Some (NewTmuxSession ''s'' []),
        gitWorktree := Some example_worktree\<rparr>"

text \<open>A started session without handles, as the storage test builds it, and a session that
  was never started.\<close>

definition started_session :: Instance where
  "started_session = zero_Instance\<lparr>Title := ''example'', started := True\<rparr>"

definition draft_session :: Instance where
  "draft_session = zero_Instance\<lparr>Title := ''draft'', Status := Ready\<rparr>"

text \<open>A registry that saved other bytes ten seconds before the clock of \<open>calm_env\<close>.\<close>

definition stale_storage :: Storage where
  "stale_storage =
     NewStorage\<lparr>lastSavedData := Some ''[{}]'', lastSaveTime := Time 64135596790000000000\<rparr>"

text \<open>A registry that saved other bytes one second before the clock of \<open>calm_env\<close>, and one
  with a write pending and the timer armed.\<close>

definition recent_storage :: Storage where
  "recent_storage =
     NewStorage\<lparr>lastSavedData := Some ''[{}]'', lastSaveTime := Time 64135596799000000000\<rparr>"

definition pending_storage :: Storage where
  "pending_storage =
     recent_storage\<lparr>pendingData := Some ''[]'', debounceTimer := Some 4000000000\<rparr>"

section \<open>Properties of the line count\<close>

lemma Split_nl_nonempty: "Split_nl s \<noteq> []"
  by (induction s) (auto split: list.splits)

lemma Join_Split_nl: "Join_nl (Split_nl s) = s"
proof (induction s)
  case Nil
  show ?case by simp
next
  case (Cons c cs)
  obtain l ls where sp: "Split_nl cs = l # ls"
    using Split_nl_nonempty [of cs] by (cases "Split_nl cs") auto
  with Cons show ?case
    by (cases ls) auto
qed

lemma Split_nl_no_newline: "l \<in> set (Split_nl s) \<Longrightarrow> CHR 0x0A \<notin> set l"
proof (induction s arbitrary: l)
  case Nil
  then show ?case by simp
next
  case (Cons c cs)
  obtain l' ls where sp: "Split_nl cs = l' # ls"
    using Split_nl_nonempty [of cs] by (cases "Split_nl cs") auto
  with Cons show ?case
    by (auto split: if_splits)
qed

lemma countDiffStats_loop_filter:
  "countDiffStats_loop ls (a, r) =
     (a + int (length (filter (\<lambda>l. l \<noteq> [] \<and> hd l = CHR ''+'' \<and> \<not> prefix ''+++'' l) ls)),
      r + int (length (filter (\<lambda>l. l \<noteq> [] \<and> hd l = CHR ''-'' \<and> \<not> prefix ''---'' l) ls)))"
proof (induction ls arbitrary: a r)
  case Nil
  show ?case by simp
next
  case (Cons l ls)
  show ?case
  proof (cases l)
    case Nil
    then show ?thesis using Cons by simp
  next
    case (Cons c cs)
    then show ?thesis using Cons.IH by (simp add: hd_conv_nth)
  qed
qed

text \<open>The lines of a text are determined by the text: a non-empty list of pieces without a
  newline whose join with newlines is the text is what splitting the text gives.\<close>

lemma Split_nl_append_line:
  "CHR 0x0A \<notin> set l \<Longrightarrow> Split_nl (l @ CHR 0x0A # s) = l # Split_nl s"
  by (induction l) auto

lemma Split_nl_line: "CHR 0x0A \<notin> set l \<Longrightarrow> Split_nl l = [l]"
  by (induction l) auto

lemma Split_Join_nl:
  "ls \<noteq> [] \<Longrightarrow> \<forall>l \<in> set ls. CHR 0x0A \<notin> set l \<Longrightarrow> Split_nl (Join_nl ls) = ls"
proof (induction ls)
  case Nil
  then show ?case by simp
next
  case (Cons l ls)
  show ?case
  proof (cases ls)
    case Nil
    with Cons.prems show ?thesis by (simp add: Split_nl_line)
  next
    case (Cons l' ls')
    with Cons.prems Cons.IH show ?thesis
      by (simp add: Split_nl_append_line del: Split_nl.simps)
  qed
qed

text \<open>
  C8. The lines of a diff text are the pieces without a newline that, joined with newlines,
  give the text; every text has such lines. For every diff text, \<open>countDiffStats\<close> returns as
  \<open>added\<close> the number of its non-empty lines that start with \<open>+\<close> but not with \<open>+++\<close>, and as
  \<open>removed\<close> the number of its non-empty lines that start with \<open>-\<close> but not with \<open>---\<close>; the empty
  text yields \<open>(0, 0)\<close>.
\<close>

theorem countDiffStats_counts:
  "(\<exists>ls. ls \<noteq> [] \<and> (\<forall>l \<in> set ls. CHR 0x0A \<notin> set l) \<and> Join_nl ls = content) \<and>
   (\<forall>ls. ls \<noteq> [] \<and> (\<forall>l \<in> set ls. CHR 0x0A \<notin> set l) \<and> Join_nl ls = content \<longrightarrow>
      countDiffStats content =
        (int (length (filter (\<lambda>l. l \<noteq> [] \<and> hd l = CHR ''+'' \<and> \<not> prefix ''+++'' l) ls)),
         int (length (filter (\<lambda>l. l \<noteq> [] \<and> hd l = CHR ''-'' \<and> \<not> prefix ''---'' l) ls)))) \<and>
   countDiffStats [] = (0, 0)"
proof (intro conjI allI impI)
  show "\<exists>ls. ls \<noteq> [] \<and> (\<forall>l \<in> set ls. CHR 0x0A \<notin> set l) \<and> Join_nl ls = content"
    using Split_nl_nonempty [of content] Split_nl_no_newline [of _ content]
      Join_Split_nl [of content]
    by blast
next
  fix ls
  assume a: "ls \<noteq> [] \<and> (\<forall>l \<in> set ls. CHR 0x0A \<notin> set l) \<and> Join_nl ls = content"
  then have sp: "Split_nl content = ls"
    using Split_Join_nl [of ls] by auto
  show "countDiffStats content =
        (int (length (filter (\<lambda>l. l \<noteq> [] \<and> hd l = CHR ''+'' \<and> \<not> prefix ''+++'' l) ls)),
         int (length (filter (\<lambda>l. l \<noteq> [] \<and> hd l = CHR ''-'' \<and> \<not> prefix ''---'' l) ls)))"
  proof (cases "content = []")
    case True
    with sp have "ls = [Nil]" by simp
    with True show ?thesis by (simp add: countDiffStats_def)
  next
    case False
    with sp show ?thesis
      by (simp add: countDiffStats_def countDiffStats_loop_filter)
  qed
next
  show "countDiffStats [] = (0, 0)" by (simp add: countDiffStats_def)
qed

text \<open>A diff of eight lines, two of them headers: two additions and one removal.\<close>

theorem countDiffStats_counts_witness:
  "Join_nl [''--- a/f'', ''+++ b/f'', ''@@ -1 +1,2 @@'', ''-old'', ''+new'', ''+more'', '' same'', '''']
     = ''--- a/f'' @ [CHR 0x0A] @ ''+++ b/f'' @ [CHR 0x0A] @ ''@@ -1 +1,2 @@'' @ [CHR 0x0A]
       @ ''-old'' @ [CHR 0x0A] @ ''+new'' @ [CHR 0x0A] @ ''+more'' @ [CHR 0x0A] @ '' same''
       @ [CHR 0x0A] \<and>
   countDiffStats (''--- a/f'' @ [CHR 0x0A] @ ''+++ b/f'' @ [CHR 0x0A] @ ''@@ -1 +1,2 @@''
       @ [CHR 0x0A] @ ''-old'' @ [CHR 0x0A] @ ''+new'' @ [CHR 0x0A] @ ''+more'' @ [CHR 0x0A]
       @ '' same'' @ [CHR 0x0A]) = (2, 1)"
proof -
  let ?ls = "[''--- a/f'', ''+++ b/f'', ''@@ -1 +1,2 @@'', ''-old'', ''+new'', ''+more'', '' same'', '''']"
  let ?text = "''--- a/f'' @ [CHR 0x0A] @ ''+++ b/f'' @ [CHR 0x0A] @ ''@@ -1 +1,2 @@''
       @ [CHR 0x0A] @ ''-old'' @ [CHR 0x0A] @ ''+new'' @ [CHR 0x0A] @ ''+more'' @ [CHR 0x0A]
       @ '' same'' @ [CHR 0x0A]"
  have h: "?ls \<noteq> [] \<and> (\<forall>l \<in> set ?ls. CHR 0x0A \<notin> set l) \<and> Join_nl ?ls = ?text"
    by simp
  from countDiffStats_counts [of ?text, THEN conjunct2, THEN conjunct1, rule_format, OF h] h
  show ?thesis by simp
qed


section \<open>When the session consults the checkout handle\<close>

lemma Diff_calls_append: "Diff_calls (tr @ tr') = Diff_calls tr @ Diff_calls tr'"
  by (induction tr rule: Diff_calls.induct) auto

lemma Diff_calls_runGitCommand:
  "runGitCommand E d a tr = (out, e, tr') \<Longrightarrow> Diff_calls tr' = Diff_calls tr"
  by (auto simp: runGitCommand_def call_str_def Diff_calls_append)

lemma Diff_calls_untracked:
  "Diff_untracked E g out tr = (e, sig, tr') \<Longrightarrow> Diff_calls tr' = Diff_calls tr"
  by (auto simp: Diff_untracked_def runGitCommand_def call_str_def Diff_calls_append
      split: option.splits if_splits)

lemma Diff_calls_compute:
  "Diff_compute E g sig tr = (stats, g', tr') \<Longrightarrow> Diff_calls tr' = Diff_calls tr"
  by (auto simp: Diff_compute_def runGitCommand_def call_str_def Diff_calls_append Let_def
      split: option.splits prod.splits)

lemma Diff_calls_Diff:
  "Diff E force (gopt, tr) = (r, g', tr') \<Longrightarrow> Diff_calls tr' = Diff_calls tr @ [force]"
  unfolding Diff_def Let_def
  by (auto simp: logged_def time_Now_def Diff_calls_append
      split: option.splits prod.splits
      dest!: Diff_calls_runGitCommand Diff_calls_untracked Diff_calls_compute)

text \<open>\<open>time.Unix(0, n)\<close> is never the zero time: an \<open>int64\<close> of nanoseconds reaches back
  292 years from 1970, not to year 1.\<close>

lemma IsZero_Unix0: "\<not> IsZero (Unix0 w)"
proof -
  have "- (2 ^ 63) \<le> sint w" using sint_ge [of w] by simp
  then show ?thesis by (simp add: IsZero_def Unix0_def unixToInternal_def)
qed

text \<open>The saturation of \<open>Sub\<close> does not change a comparison with a representable bound.\<close>

lemma Sub_ge_iff:
  "minDuration < d \<Longrightarrow> d \<le> maxDuration \<Longrightarrow> (d \<le> Sub t u) = (d \<le> abs_ns t - abs_ns u)"
  by (auto simp: Sub_def Let_def)

lemma interval_elapsed_iff:
  "(diffRefreshInterval \<le> Sub now (Unix0 w)) = (5 * 1000000000 \<le> unix_ns now - sint w)"
  by (subst Sub_ge_iff)
     (auto simp: diffRefreshInterval_def Second_def maxDuration_def minDuration_def unix_ns_def
        Unix0_def)

text \<open>
  C1. For every started session that is not paused, \<open>UpdateDiffStats(now)\<close> enters \<open>Diff\<close>
  exactly when the dirty flag was set, or \<open>now\<close> is the zero time, or \<open>now\<close> is at least
  5 seconds (5,000,000,000 ns) after \<open>last_diff_check\<close>; it does so once, with \<open>force\<close> being
  \<open>watcher_disabled\<close> when the flag was set and \<open>true\<close> in the two other cases; otherwise \<open>Diff\<close>
  is not entered.
\<close>

theorem UpdateDiffStats_calls_Diff:
  assumes "started i" and "Status i \<noteq> Paused"
  shows "Diff_calls (snd (snd (UpdateDiffStats E now (i, tr)))) =
         Diff_calls tr @
           (if diffDirty i then [diffWatcherDisabled i]
            else if IsZero now \<or> 5 * 1000000000 \<le> unix_ns now - sint (lastDiffCheck i)
            then [True] else [])"
proof (cases "diffDirty i")
  case True
  obtain r g' tr1 where d: "Diff E (diffWatcherDisabled i) (gitWorktree i, tr) = (r, g', tr1)"
    by (cases "Diff E (diffWatcherDisabled i) (gitWorktree i, tr)") auto
  have "Diff_calls tr1 = Diff_calls tr @ [diffWatcherDisabled i]"
    using Diff_calls_Diff [OF d] .
  with True assms d show ?thesis
    by (simp add: UpdateDiffStats_def Let_def split: outcome.split option.split)
next
  case False
  obtain r g' tr1 where d: "Diff E True (gitWorktree i, tr) = (r, g', tr1)"
    by (cases "Diff E True (gitWorktree i, tr)") auto
  have "Diff_calls tr1 = Diff_calls tr @ [True]"
    using Diff_calls_Diff [OF d] .
  with False assms d show ?thesis
    by (simp add: UpdateDiffStats_def Let_def IsZero_Unix0 interval_elapsed_iff
        split: outcome.split option.split)
qed

text \<open>The clock of the example stands at 2,000,000,000 s after the Unix epoch: a last check
  at 1,000,000,000 s is refreshed with force, one a second ago is not, and a dirty flag with a
  working watcher is refreshed without force.\<close>

theorem UpdateDiffStats_calls_Diff_witness:
  "started example_session \<and> Status example_session \<noteq> Paused \<and>
   Diff_calls (snd (snd (UpdateDiffStats calm_env (Time 64135596800000000000)
                           (example_session\<lparr>lastDiffCheck := 1000000000000000000\<rparr>, [])))) = [True]
   \<and> Diff_calls (snd (snd (UpdateDiffStats calm_env (Time 64135596800000000000)
                           (example_session\<lparr>lastDiffCheck := 1999999999000000000\<rparr>, [])))) = []
   \<and> Diff_calls (snd (snd (UpdateDiffStats calm_env (Time 64135596800000000000)
                           (example_session\<lparr>diffDirty := True\<rparr>, [])))) = [False]"
  using UpdateDiffStats_calls_Diff [of "example_session\<lparr>lastDiffCheck := 1000000000000000000\<rparr>"
          calm_env "Time 64135596800000000000" "[]"]
        UpdateDiffStats_calls_Diff [of "example_session\<lparr>lastDiffCheck := 1999999999000000000\<rparr>"
          calm_env "Time 64135596800000000000" "[]"]
        UpdateDiffStats_calls_Diff [of "example_session\<lparr>diffDirty := True\<rparr>"
          calm_env "Time 64135596800000000000" "[]"]
  by (simp add: example_session_def zero_Instance_def Running_def Paused_def IsZero_def
      unix_ns_def unixToInternal_def)

section \<open>The snapshot cache of the diff\<close>

lemma untracked_failure:
  assumes "Diff_untracked E g out tr = (e, sig, tr')"
  shows "\<exists>ext. tr' = tr @ ext \<and>
           (\<forall>d a out' e'. (Git_Command d a, R_str out' (Some e')) \<in> set ext \<longrightarrow> e = Some e')"
  using assms
  by (auto simp: Diff_untracked_def runGitCommand_def call_str_def
      split: option.splits if_splits)

lemma compute_failure:
  assumes "Diff_compute E g sig tr = (stats, g', tr')"
  shows "\<exists>ext. tr' = tr @ ext \<and>
           (\<forall>d a out' e'. (Git_Command d a, R_str out' (Some e')) \<in> set ext \<longrightarrow>
              Error stats = Some e' \<and> g' = g)"
  using assms
  by (auto simp: Diff_compute_def runGitCommand_def call_str_def Let_def
      split: option.splits prod.splits)

lemma runGitCommand_ext:
  "runGitCommand E d a tr = (out, e, tr') \<Longrightarrow> tr' = tr @ [(Git_Command d a, R_str out e)]"
  by (auto simp: runGitCommand_def call_str_def)

lemma time_Now_ext: "time_Now E tr = (now, tr') \<Longrightarrow> tr' = tr @ [(Time_Now, R_time now)]"
  by (auto simp: time_Now_def)

text \<open>Each command that fails during \<open>Diff\<close> ends it: its error is the one returned, and
  the cache is as before.\<close>

lemma Diff_failure:
  assumes "Diff E force (Some g, tr) = (r, g', tr')"
  shows "\<exists>ext stats g''. tr' = tr @ ext \<and> r = Returned stats \<and> g' = Some g'' \<and>
           (\<forall>d a out' e'. (Git_Command d a, R_str out' (Some e')) \<in> set ext \<longrightarrow>
              Error stats = Some e' \<and> lastDiff g'' = lastDiff g \<and>
              lastStatusSnapshot g'' = lastStatusSnapshot g)"
proof -
  let ?c = "Git_Command (worktreePath g) [''status'', ''--porcelain'']"
  obtain out e1 tr1 where
    s: "runGitCommand E (worktreePath g) [''status'', ''--porcelain'']
          (logged (Git_Diff force) tr) = (out, e1, tr1)"
    by (cases "runGitCommand E (worktreePath g) [''status'', ''--porcelain'']
          (logged (Git_Diff force) tr)") auto
  have tr1: "tr1 = tr @ [(Git_Diff force, R_unit), (?c, R_str out e1)]"
    using runGitCommand_ext [OF s] by (simp add: logged_def)
  show ?thesis
  proof (cases e1)
    case (Some err)
    with assms s have "r = Returned (empty_DiffStats\<lparr>Error := Some err\<rparr>)" "g' = Some g" "tr' = tr1"
      by (simp_all add: Diff_def Let_def)
    with tr1 Some show ?thesis by auto
  next
    case None
    obtain now tr2 where n: "time_Now E tr1 = (now, tr2)"
      by (cases "time_Now E tr1") auto
    have tr2: "tr2 = tr @ [(Git_Diff force, R_unit), (?c, R_str out None), (Time_Now, R_time now)]"
      using time_Now_ext [OF n] tr1 None by simp
    let ?g1 = "g\<lparr>lastDiffCheckedAt := now\<rparr>"
    show ?thesis
    proof (cases "\<not> force \<and> out = lastStatusSnapshot g \<and> lastDiff g \<noteq> None")
      case True
      then obtain d where d: "lastDiff g = Some d" by auto
      with True None assms s n have "r = Returned d" "g' = Some ?g1" "tr' = tr2"
        by (simp_all add: Diff_def Let_def cloneDiffStats_def)
      with tr2 show ?thesis by auto
    next
      case False
      then have nocache: "(if \<not> force \<and> out = lastStatusSnapshot g
                          then cloneDiffStats (lastDiff ?g1) else None) = None"
        by (auto simp: cloneDiffStats_def)
      obtain e sig tr3 where u: "Diff_untracked E ?g1 out tr2 = (e, sig, tr3)"
        by (cases "Diff_untracked E ?g1 out tr2") auto
      from untracked_failure [OF u] obtain ext1 where
        ext1: "tr3 = tr2 @ ext1"
          "\<forall>d a out' e'. (Git_Command d a, R_str out' (Some e')) \<in> set ext1 \<longrightarrow> e = Some e'"
        by blast
      show ?thesis
      proof (cases e)
        case (Some err)
        with None nocache u assms s n
        have res: "r = Returned (empty_DiffStats\<lparr>Error := Some err\<rparr>)" "g' = Some ?g1" "tr' = tr3"
          by (simp_all add: Diff_def Let_def)
        have "tr' = tr @ ([(Git_Diff force, R_unit), (?c, R_str out None),
                (Time_Now, R_time now)] @ ext1)"
          using res ext1 tr2 by simp
        moreover have "\<forall>d a out' e'. (Git_Command d a, R_str out' (Some e')) \<in>
              set ([(Git_Diff force, R_unit), (?c, R_str out None), (Time_Now, R_time now)]
                   @ ext1) \<longrightarrow> Some err = Some e'"
          using ext1(2) Some by auto
        ultimately show ?thesis using res by auto
      next
        case ok: None
        obtain stats g2 tr4 where c: "Diff_compute E ?g1 sig tr3 = (stats, g2, tr4)"
          by (cases "Diff_compute E ?g1 sig tr3") auto
        from compute_failure [OF c] obtain ext2 where
          ext2: "tr4 = tr3 @ ext2"
            "\<forall>d a out' e'. (Git_Command d a, R_str out' (Some e')) \<in> set ext2 \<longrightarrow>
               Error stats = Some e' \<and> g2 = ?g1"
          by blast
        from None nocache u ok c assms s n
        have res: "r = Returned stats" "g' = Some g2" "tr' = tr4"
          by (simp_all add: Diff_def Let_def)
        have "tr' = tr @ ([(Git_Diff force, R_unit), (?c, R_str out None),
                (Time_Now, R_time now)] @ ext1 @ ext2)"
          using res ext1 ext2 tr2 by simp
        moreover have "\<forall>d a out' e'. (Git_Command d a, R_str out' (Some e')) \<in>
              set ([(Git_Diff force, R_unit), (?c, R_str out None), (Time_Now, R_time now)]
                   @ ext1 @ ext2) \<longrightarrow>
              Error stats = Some e' \<and> lastDiff g2 = lastDiff g \<and>
              lastStatusSnapshot g2 = lastStatusSnapshot g"
          using ext1(2) ext2(2) ok by auto
        ultimately show ?thesis using res by blast
      qed
    qed
  qed
qed

text \<open>
  C2. For every call \<open>Diff(force)\<close> on a handle: if \<open>force\<close> is false, a previous \<open>lastDiff\<close>
  exists and the status command succeeds with the stored snapshot signature, the result is the
  copy of \<open>lastDiff\<close>, the cache is as before, and the status command is the only command run
  (no diff is recomputed); and whenever a command run during the call fails, the returned
  \<open>DiffStats\<close> carries that error and neither \<open>lastDiff\<close> nor the snapshot signature is changed.
\<close>

theorem Diff_cached_or_failed:
  "(lastDiff g = Some d \<and>
    env_err E (tr @ [(Git_Diff False, R_unit)])
      (Git_Command (worktreePath g) [''status'', ''--porcelain'']) = None \<and>
    env_str E (tr @ [(Git_Diff False, R_unit)])
      (Git_Command (worktreePath g) [''status'', ''--porcelain'']) = lastStatusSnapshot g \<longrightarrow>
      (\<exists>now. Diff E False (Some g, tr) =
         (Returned d, Some (g\<lparr>lastDiffCheckedAt := now\<rparr>),
          tr @ [(Git_Diff False, R_unit),
                (Git_Command (worktreePath g) [''status'', ''--porcelain''],
                 R_str (lastStatusSnapshot g) None),
                (Time_Now, R_time now)])))
   \<and> (Diff E force (Some g, tr) = (r, g', tr') \<and>
      (Git_Command dir args, R_str out (Some e)) \<in> set (drop (length tr) tr') \<longrightarrow>
        (\<exists>stats g''. r = Returned stats \<and> Error stats = Some e \<and> g' = Some g'' \<and>
           lastDiff g'' = lastDiff g \<and> lastStatusSnapshot g'' = lastStatusSnapshot g))"
proof (intro conjI impI)
  assume a: "lastDiff g = Some d \<and>
    env_err E (tr @ [(Git_Diff False, R_unit)])
      (Git_Command (worktreePath g) [''status'', ''--porcelain'']) = None \<and>
    env_str E (tr @ [(Git_Diff False, R_unit)])
      (Git_Command (worktreePath g) [''status'', ''--porcelain'']) = lastStatusSnapshot g"
  then show "\<exists>now. Diff E False (Some g, tr) =
         (Returned d, Some (g\<lparr>lastDiffCheckedAt := now\<rparr>),
          tr @ [(Git_Diff False, R_unit),
                (Git_Command (worktreePath g) [''status'', ''--porcelain''],
                 R_str (lastStatusSnapshot g) None),
                (Time_Now, R_time now)])"
    by (simp add: Diff_def Let_def logged_def runGitCommand_def call_str_def time_Now_def
        cloneDiffStats_def)
next
  assume b: "Diff E force (Some g, tr) = (r, g', tr') \<and>
      (Git_Command dir args, R_str out (Some e)) \<in> set (drop (length tr) tr')"
  from Diff_failure [of E force g tr r g' tr'] b obtain ext stats g'' where
    "tr' = tr @ ext" "r = Returned stats" "g' = Some g''"
    "\<forall>d a out' e'. (Git_Command d a, R_str out' (Some e')) \<in> set ext \<longrightarrow>
       Error stats = Some e' \<and> lastDiff g'' = lastDiff g \<and>
       lastStatusSnapshot g'' = lastStatusSnapshot g"
    by blast
  with b show "\<exists>stats g''. r = Returned stats \<and> Error stats = Some e \<and> g' = Some g'' \<and>
           lastDiff g'' = lastDiff g \<and> lastStatusSnapshot g'' = lastStatusSnapshot g"
    by auto
qed

text \<open>Two runs on the example handle: a cache hit, and a failing status command.\<close>

lemma Diff_modified_cached:
  "Diff modified_env False (Some cached_worktree, []) =
     (Returned example_stats,
      Some (cached_worktree\<lparr>lastDiffCheckedAt := Time 64135596800000000000\<rparr>),
      [(Git_Diff False, R_unit),
       (Git_Command ''/wt'' [''status'', ''--porcelain''], R_str '' M file.txt'' None),
       (Time_Now, R_time (Time 64135596800000000000))])"
  by (simp add: Diff_def Let_def logged_def runGitCommand_def call_str_def time_Now_def
      cloneDiffStats_def modified_env_def calm_env_def cached_worktree_def example_worktree_def
      NewGitWorktreeFromStorage_def)

lemma Diff_git_fails:
  "Diff git_fails_env True (Some cached_worktree, []) =
     (Returned (empty_DiffStats\<lparr>Error := Some (Err ''exit status 128'')\<rparr>),
      Some cached_worktree,
      [(Git_Diff True, R_unit),
       (Git_Command ''/wt'' [''status'', ''--porcelain''],
        R_str [] (Some (Err ''exit status 128'')))])"
  by (simp add: Diff_def Let_def logged_def runGitCommand_def call_str_def time_Now_def
      git_fails_env_def calm_env_def cached_worktree_def example_worktree_def
      NewGitWorktreeFromStorage_def)

theorem Diff_cached_or_failed_witness:
  "(\<exists>now. Diff modified_env False (Some cached_worktree, []) =
      (Returned example_stats, Some (cached_worktree\<lparr>lastDiffCheckedAt := now\<rparr>),
       [(Git_Diff False, R_unit),
        (Git_Command ''/wt'' [''status'', ''--porcelain''], R_str '' M file.txt'' None),
        (Time_Now, R_time now)]))
   \<and> (\<exists>stats g''. fst (Diff git_fails_env True (Some cached_worktree, [])) = Returned stats \<and>
         Error stats = Some (Err ''exit status 128'') \<and>
         fst (snd (Diff git_fails_env True (Some cached_worktree, []))) = Some g'' \<and>
         lastDiff g'' = Some example_stats \<and> lastStatusSnapshot g'' = '' M file.txt'')"
proof -
  have h1: "lastDiff cached_worktree = Some example_stats \<and>
    env_err modified_env ([] @ [(Git_Diff False, R_unit)])
      (Git_Command (worktreePath cached_worktree) [''status'', ''--porcelain'']) = None \<and>
    env_str modified_env ([] @ [(Git_Diff False, R_unit)])
      (Git_Command (worktreePath cached_worktree) [''status'', ''--porcelain'']) =
      lastStatusSnapshot cached_worktree"
    by (simp add: modified_env_def calm_env_def cached_worktree_def)
  have h2: "Diff git_fails_env True (Some cached_worktree, []) =
      (Returned (empty_DiffStats\<lparr>Error := Some (Err ''exit status 128'')\<rparr>),
       Some cached_worktree,
       [(Git_Diff True, R_unit),
        (Git_Command ''/wt'' [''status'', ''--porcelain''],
         R_str [] (Some (Err ''exit status 128'')))]) \<and>
      (Git_Command ''/wt'' [''status'', ''--porcelain''],
         R_str [] (Some (Err ''exit status 128''))) \<in>
      set (drop (length ([] :: history))
        [(Git_Diff True, R_unit),
         (Git_Command ''/wt'' [''status'', ''--porcelain''],
          R_str [] (Some (Err ''exit status 128'')))])"
    by (simp add: Diff_git_fails)
  have c: "lastDiff cached_worktree = Some example_stats"
    "lastStatusSnapshot cached_worktree = '' M file.txt''"
    "worktreePath cached_worktree = ''/wt''"
    by (simp_all add: cached_worktree_def example_worktree_def NewGitWorktreeFromStorage_def)
  from Diff_cached_or_failed [THEN conjunct1, rule_format, OF h1]
       Diff_cached_or_failed [THEN conjunct2, rule_format, OF h2]
  show ?thesis
    by (simp add: c Diff_git_fails)
qed

section \<open>Invalidating the cache\<close>

lemma untracked_ext:
  "Diff_untracked E g out tr = (e, sig, tr') \<Longrightarrow> \<exists>ext. tr' = tr @ ext"
  by (auto simp: Diff_untracked_def runGitCommand_def call_str_def
      split: option.splits if_splits)

lemma compute_success:
  assumes "Diff_compute E g sig tr = (stats, g', tr')" and "Error stats = None"
  shows "tr' = tr @ [(Git_Command (worktreePath g) [''--no-pager'', ''diff'', baseCommitSHA g],
                      R_str (Content stats) None)]
         \<and> (Added stats, Removed stats) = countDiffStats (Content stats)
         \<and> lastDiff g' = Some stats \<and> lastStatusSnapshot g' = sig"
  using assms
  by (auto simp: Diff_compute_def runGitCommand_def call_str_def Let_def empty_DiffStats_def
      cloneDiffStats_def split: option.splits prod.splits)

lemma Diff_recomputes:
  assumes "Diff E force (Some g, tr) = (Returned stats, g', tr')"
    and "force \<or> lastDiff g = None" and "Error stats = None"
  shows "(Git_Command (worktreePath g) [''--no-pager'', ''diff'', baseCommitSHA g],
            R_str (Content stats) None) \<in> set (drop (length tr) tr')
         \<and> (Added stats, Removed stats) = countDiffStats (Content stats)
         \<and> (\<exists>g''. g' = Some g'' \<and> lastDiff g'' = Some stats)"
proof -
  obtain out e1 tr1 where
    s: "runGitCommand E (worktreePath g) [''status'', ''--porcelain'']
          (logged (Git_Diff force) tr) = (out, e1, tr1)"
    by (cases "runGitCommand E (worktreePath g) [''status'', ''--porcelain'']
          (logged (Git_Diff force) tr)") auto
  have tr1: "tr1 = tr @ [(Git_Diff force, R_unit),
      (Git_Command (worktreePath g) [''status'', ''--porcelain''], R_str out e1)]"
    using runGitCommand_ext [OF s] by (simp add: logged_def)
  have e1: "e1 = None"
  proof (cases e1)
    case (Some err)
    with assms(1) s have "stats = empty_DiffStats\<lparr>Error := Some err\<rparr>"
      by (simp add: Diff_def Let_def)
    with assms(3) show ?thesis by simp
  qed simp
  obtain now tr2 where n: "time_Now E tr1 = (now, tr2)"
    by (cases "time_Now E tr1") auto
  let ?g1 = "g\<lparr>lastDiffCheckedAt := now\<rparr>"
  have nocache: "(if \<not> force \<and> out = lastStatusSnapshot g
                  then cloneDiffStats (lastDiff ?g1) else None) = None"
    using assms(2) by (auto simp: cloneDiffStats_def)
  obtain e sig tr3 where u: "Diff_untracked E ?g1 out tr2 = (e, sig, tr3)"
    by (cases "Diff_untracked E ?g1 out tr2") auto
  have e: "e = None"
  proof (cases e)
    case (Some err)
    with assms(1) s e1 n nocache u have "stats = empty_DiffStats\<lparr>Error := Some err\<rparr>"
      by (simp add: Diff_def Let_def)
    with assms(3) show ?thesis by simp
  qed simp
  obtain ext1 where ext1: "tr3 = tr2 @ ext1"
    using untracked_ext [OF u] by blast
  obtain stats' g2 tr4 where c: "Diff_compute E ?g1 sig tr3 = (stats', g2, tr4)"
    by (cases "Diff_compute E ?g1 sig tr3") auto
  from assms(1) s e1 n nocache u e c
  have res: "stats' = stats" "g' = Some g2" "tr' = tr4"
    by (simp_all add: Diff_def Let_def)
  from compute_success [OF c] res assms(3)
  have cs: "tr4 = tr3 @ [(Git_Command (worktreePath g) [''--no-pager'', ''diff'', baseCommitSHA g],
                      R_str (Content stats) None)]"
    "(Added stats, Removed stats) = countDiffStats (Content stats)"
    "lastDiff g2 = Some stats"
    by simp_all
  have "tr' = tr @ (drop (length tr) tr1 @ drop (length tr1) tr2 @ ext1 @
      [(Git_Command (worktreePath g) [''--no-pager'', ''diff'', baseCommitSHA g],
        R_str (Content stats) None)])"
    using res cs(1) ext1 time_Now_ext [OF n] tr1 by simp
  then have "(Git_Command (worktreePath g) [''--no-pager'', ''diff'', baseCommitSHA g],
            R_str (Content stats) None) \<in> set (drop (length tr) tr')"
    by simp
  with cs res show ?thesis by simp
qed

text \<open>
  C10. Every call to \<open>MarkDiffDirty\<close> on a session whose handle is not \<open>nil\<close> sets the
  diff-dirty flag and invalidates the cache of the handle (\<open>lastDiff\<close> and the stored snapshot
  signature are cleared), so that the next \<open>Diff(false)\<close> recomputes: when it returns without
  error, its content is the output of the diff command run during that call, its counts are the
  line counts of that output, and it is stored as the new \<open>lastDiff\<close>.
\<close>

theorem MarkDiffDirty_invalidates:
  assumes "gitWorktree i = Some g"
  shows "diffDirty (MarkDiffDirty i) \<and>
         gitWorktree (MarkDiffDirty i) = Some (g\<lparr>lastDiff := None, lastStatusSnapshot := []\<rparr>) \<and>
         (\<forall>E tr stats g' tr'.
            Diff E False (gitWorktree (MarkDiffDirty i), tr) = (Returned stats, g', tr') \<and>
            Error stats = None \<longrightarrow>
              (Git_Command (worktreePath g) [''--no-pager'', ''diff'', baseCommitSHA g],
                 R_str (Content stats) None) \<in> set (drop (length tr) tr') \<and>
              (Added stats, Removed stats) = countDiffStats (Content stats) \<and>
              (\<exists>g''. g' = Some g'' \<and> lastDiff g'' = Some stats))"
proof -
  have m: "gitWorktree (MarkDiffDirty i) = Some (g\<lparr>lastDiff := None, lastStatusSnapshot := []\<rparr>)"
    "diffDirty (MarkDiffDirty i)"
    using assms by (simp_all add: MarkDiffDirty_def Let_def InvalidateDiffCache_def)
  show ?thesis
  proof (intro conjI allI impI)
    fix E tr stats g' tr'
    assume a: "Diff E False (gitWorktree (MarkDiffDirty i), tr) = (Returned stats, g', tr') \<and>
            Error stats = None"
    from a m have d: "Diff E False (Some (g\<lparr>lastDiff := None, lastStatusSnapshot := []\<rparr>), tr) =
        (Returned stats, g', tr')" by simp
    from Diff_recomputes [OF d] a
    show "(Git_Command (worktreePath g) [''--no-pager'', ''diff'', baseCommitSHA g],
                 R_str (Content stats) None) \<in> set (drop (length tr) tr')"
      and "(Added stats, Removed stats) = countDiffStats (Content stats)"
      and "\<exists>g''. g' = Some g'' \<and> lastDiff g'' = Some stats"
      by simp_all
  qed (use m in simp_all)
qed

text \<open>On the example handle \<open>Diff(false)\<close> hits the cache; after \<open>MarkDiffDirty\<close> it runs the
  diff command.\<close>

lemma Diff_after_invalidation:
  "Diff modified_env False (Some (cached_worktree\<lparr>lastDiff := None, lastStatusSnapshot := []\<rparr>), []) =
     (Returned \<lparr>Content = ''+++ b/file.txt'' @ [CHR 0x0A] @ ''+change-one'' @ [CHR 0x0A],
               Added = 1, Removed = 0, Error = None\<rparr>,
      Some (cached_worktree
        \<lparr>lastDiff := Some \<lparr>Content = ''+++ b/file.txt'' @ [CHR 0x0A] @ ''+change-one'' @ [CHR 0x0A],
               Added = 1, Removed = 0, Error = None\<rparr>,
         lastStatusSnapshot := '' M file.txt'',
         lastDiffCheckedAt := Time 64135596800000000000\<rparr>),
      [(Git_Diff False, R_unit),
       (Git_Command ''/wt'' [''status'', ''--porcelain''], R_str '' M file.txt'' None),
       (Time_Now, R_time (Time 64135596800000000000)),
       (Git_Command ''/wt'' [''--no-pager'', ''diff'', ''abc''],
        R_str (''+++ b/file.txt'' @ [CHR 0x0A] @ ''+change-one'' @ [CHR 0x0A]) None)])"
  by (simp add: Diff_def Let_def logged_def runGitCommand_def call_str_def time_Now_def
      cloneDiffStats_def modified_env_def calm_env_def cached_worktree_def example_worktree_def
      NewGitWorktreeFromStorage_def Diff_untracked_def Diff_compute_def countDiffStats_def
      empty_DiffStats_def)

theorem MarkDiffDirty_invalidates_witness:
  "gitWorktree cached_session = Some cached_worktree \<and>
   fst (Diff modified_env False (gitWorktree cached_session, [])) = Returned example_stats \<and>
   diffDirty (MarkDiffDirty cached_session) \<and>
   (Git_Command ''/wt'' [''--no-pager'', ''diff'', ''abc''],
    R_str (''+++ b/file.txt'' @ [CHR 0x0A] @ ''+change-one'' @ [CHR 0x0A]) None)
     \<in> set (snd (snd (Diff modified_env False (gitWorktree (MarkDiffDirty cached_session), []))))"
proof -
  have h: "gitWorktree cached_session = Some cached_worktree"
    by (simp add: cached_session_def)
  note t = MarkDiffDirty_invalidates [OF h]
  from t have m: "diffDirty (MarkDiffDirty cached_session)"
    "gitWorktree (MarkDiffDirty cached_session) =
       Some (cached_worktree\<lparr>lastDiff := None, lastStatusSnapshot := []\<rparr>)"
    by simp_all
  have w: "worktreePath cached_worktree = ''/wt''" "baseCommitSHA cached_worktree = ''abc''"
    by (simp_all add: cached_worktree_def example_worktree_def NewGitWorktreeFromStorage_def)
  from t [THEN conjunct2, THEN conjunct2, rule_format, of modified_env "[]"] m(2)
    Diff_after_invalidation
  have "(Git_Command ''/wt'' [''--no-pager'', ''diff'', ''abc''],
    R_str (''+++ b/file.txt'' @ [CHR 0x0A] @ ''+change-one'' @ [CHR 0x0A]) None)
     \<in> set (snd (snd (Diff modified_env False (gitWorktree (MarkDiffDirty cached_session), []))))"
    by (simp add: w)
  with h m show ?thesis
    by (simp add: Diff_modified_cached)
qed

section \<open>The preview-dirty flag\<close>

text \<open>A session built by \<open>NewInstance\<close> starts with the preview-dirty flag set.\<close>

theorem NewInstance_preview_dirty_counterexample:
  "map_sum id IsPreviewDirty (fst (NewInstance calm_env example_options [])) = Inr True"
  by (simp add: NewInstance_def time_Now_def call_str_def calm_env_def IsPreviewDirty_def)

text \<open>
  C9, amended. The zero-valued session (\<open>Instance{}\<close>, as the test builds it) reports
  \<open>IsPreviewDirty() = false\<close>, whereas every session returned by \<open>NewInstance\<close> reports true;
  after \<open>MarkPreviewDirty\<close> a session reports true, and after the flag is cleared directly it
  reports false.
\<close>

theorem preview_dirty_flag:
  "IsPreviewDirty zero_Instance = False \<and>
   (fst (NewInstance E opts tr) = Inr i \<longrightarrow> IsPreviewDirty i = True) \<and>
   IsPreviewDirty (MarkPreviewDirty j) = True \<and>
   IsPreviewDirty (j\<lparr>previewDirty := False\<rparr>) = False"
  by (auto simp: NewInstance_def time_Now_def call_str_def IsPreviewDirty_def
      MarkPreviewDirty_def zero_Instance_def split: option.splits)

theorem preview_dirty_flag_witness:
  "fst (NewInstance calm_env example_options []) =
     Inr (zero_Instance\<lparr>Title := ''s'', Status := Ready, Program := ''claude'',
            CreatedAt := Time 64135596800000000000, UpdatedAt := Time 64135596800000000000,
            previewDirty := True, diffDirty := True\<rparr>) \<and>
   IsPreviewDirty (zero_Instance\<lparr>Title := ''s'', Status := Ready, Program := ''claude'',
            CreatedAt := Time 64135596800000000000, UpdatedAt := Time 64135596800000000000,
            previewDirty := True, diffDirty := True\<rparr>) = True"
proof -
  have h: "fst (NewInstance calm_env example_options []) =
     Inr (zero_Instance\<lparr>Title := ''s'', Status := Ready, Program := ''claude'',
            CreatedAt := Time 64135596800000000000, UpdatedAt := Time 64135596800000000000,
            previewDirty := True, diffDirty := True\<rparr>)"
    by (simp add: NewInstance_def time_Now_def call_str_def calm_env_def example_options_def
        zero_Instance_def)
  from preview_dirty_flag [THEN conjunct2, THEN conjunct1, rule_format, OF h] h
  show ?thesis by simp
qed

section \<open>Pausing when the commit fails\<close>

lemma combineErrors_nonempty: "errs \<noteq> [] \<Longrightarrow> \<exists>err. combineErrors errs = Some err"
  by (simp add: combineErrors_def)

lemma stopDiffWatcher_keeps:
  assumes "stopDiffWatcher E (i, tr) = (e, i1, tr1)"
  shows "\<exists>ext. tr1 = tr @ ext \<and> set (calls ext) \<subseteq> {Watcher_Cancel, Watcher_Wait, Watcher_Close}"
    and "Status i1 = Status i" and "gitWorktree i1 = gitWorktree i"
    and "tmuxSession i1 = tmuxSession i" and "started i1 = started i" and "Title i1 = Title i"
  using assms
  by (auto simp: stopDiffWatcher_def Let_def logged_def call_err_def calls_def
      split: if_splits option.splits prod.splits)

lemma Pause_finish_ext:
  assumes "Pause_finish errs g (i, tr) = (r, i', tr')"
  shows "\<exists>ext. tr' = tr @ ext \<and> (\<forall>m rep. (Git_CommitChanges m, rep) \<notin> set ext)"
  using assms
  by (auto simp: Pause_finish_def logged_def split: option.splits)

lemma Pause_detach_ext:
  assumes "Pause_detach E errs (i, tr) = (r, i', tr')"
  shows "\<exists>ext. tr' = tr @ ext \<and> (\<forall>m rep. (Git_CommitChanges m, rep) \<notin> set ext)"
proof (cases "tmuxSession i")
  case None
  with assms show ?thesis by (simp add: Pause_detach_def)
next
  case (Some t)
  show ?thesis
  proof (cases "gitWorktree i")
    case None
    with Some assms show ?thesis
      by (auto simp: Pause_detach_def Let_def call_err_def)
  next
    case g: (Some g)
    let ?tr1 = "tr @ [(Tmux_DetachSafely, R_err (env_err E tr Tmux_DetachSafely))]"
    let ?c = "Os_Stat (worktreePath g)"
    let ?tr2 = "?tr1 @ [(?c, R_err (env_err E ?tr1 ?c))]"
    let ?errs1 = "append_failure errs ''failed to detach tmux session: '' (env_err E tr Tmux_DetachSafely)"
    show ?thesis
    proof (cases "env_err E ?tr1 ?c")
      case (Some serr)
      with \<open>tmuxSession i = Some t\<close> g assms
      have "Pause_finish ?errs1 g (i, ?tr2) = (r, i', tr')"
        by (simp add: Pause_detach_def Let_def call_err_def)
      from Pause_finish_ext [OF this] show ?thesis by auto
    next
      case None
      let ?tr3 = "?tr2 @ [(Git_Remove, R_err (env_err E ?tr2 Git_Remove))]"
      show ?thesis
      proof (cases "env_err E ?tr2 Git_Remove")
        case (Some rerr)
        with None \<open>tmuxSession i = Some t\<close> g assms have "tr' = ?tr3"
          by (simp add: Pause_detach_def Let_def call_err_def git_method_def)
        then show ?thesis by auto
      next
        case rem: None
        let ?tr4 = "?tr3 @ [(Git_Prune, R_err (env_err E ?tr3 Git_Prune))]"
        show ?thesis
        proof (cases "env_err E ?tr3 Git_Prune")
          case (Some perr)
          with None rem \<open>tmuxSession i = Some t\<close> g assms have "tr' = ?tr4"
            by (simp add: Pause_detach_def Let_def call_err_def git_method_def)
          then show ?thesis by auto
        next
          case pr: None
          with None rem \<open>tmuxSession i = Some t\<close> g assms
          obtain g2 i2 where "Pause_finish ?errs1 g2 (i2, ?tr4) = (r, i', tr')"
            by (simp add: Pause_detach_def Let_def call_err_def git_method_def)
          from Pause_finish_ext [OF this] show ?thesis by auto
        qed
      qed
    qed
  qed
qed

text \<open>
  C5. For every started session that is not paused and whose working copy is dirty: if the
  \<open>CommitChanges\<close> step of \<open>Pause\<close> fails, \<open>Pause\<close> returns an error, neither \<open>Remove\<close> nor \<open>Prune\<close>
  is called, and the status of the session is as before, so not \<open>Paused\<close>. (The commit step is
  only reached after \<open>IsDirty\<close> has answered true.)
\<close>

theorem Pause_commit_failure:
  assumes "started i" and "Status i \<noteq> Paused"
    and "Pause E (i, tr) = (r, i', tr')"
    and "(Git_CommitChanges m, R_err (Some e)) \<in> set (drop (length tr) tr')"
  shows "(\<exists>err. r = Returned (Some err)) \<and>
         Git_Remove \<notin> set (calls (drop (length tr) tr')) \<and>
         Git_Prune \<notin> set (calls (drop (length tr) tr')) \<and>
         Status i' = Status i \<and> Status i' \<noteq> Paused \<and>
         (Git_IsDirty, R_bool True None) \<in> set (drop (length tr) tr')"
proof -
  obtain werr i1 tr1 where w: "stopDiffWatcher E (i, tr) = (werr, i1, tr1)"
    by (cases "stopDiffWatcher E (i, tr)") auto
  from stopDiffWatcher_keeps [OF w] obtain ext0 where
    ext0: "tr1 = tr @ ext0" "set (calls ext0) \<subseteq> {Watcher_Cancel, Watcher_Wait, Watcher_Close}"
    and keep: "Status i1 = Status i" "gitWorktree i1 = gitWorktree i"
    by blast
  have nocommit0: "\<And>m rep. (Git_CommitChanges m, rep) \<notin> set ext0"
    using ext0(2) by (force simp: calls_def)
  let ?errs = "append_failure [] ''failed to stop diff watcher: '' werr"
  show ?thesis
  proof (cases "gitWorktree i1")
    case None
    with assms(1-3) w have "tr' = tr1"
      by (simp add: Pause_def Let_def)
    with assms(4) ext0 nocommit0 show ?thesis by simp
  next
    case (Some g)
    let ?dirty = "env_bool E tr1 Git_IsDirty"
    let ?derr = "env_err E tr1 Git_IsDirty"
    let ?g1 = "env_handle E tr1 Git_IsDirty g"
    let ?tr2 = "tr1 @ [(Git_IsDirty, R_bool ?dirty ?derr)]"
    have gm: "git_method_bool E Git_IsDirty (g, tr1) = (?dirty, ?derr, ?g1, ?tr2)"
      by (simp add: git_method_bool_def)
    show ?thesis
    proof (cases "?derr = None \<and> ?dirty")
      case False
      then obtain errs' where
        "Pause_detach E errs' (i1\<lparr>gitWorktree := Some ?g1\<rparr>, ?tr2) = (r, i', tr')"
        using assms(1-3) w Some gm
        by (cases ?derr) (auto simp: Pause_def Let_def)
      from Pause_detach_ext [OF this] obtain ext where
        "tr' = ?tr2 @ ext" "\<forall>m rep. (Git_CommitChanges m, rep) \<notin> set ext"
        by blast
      with assms(4) ext0 nocommit0 show ?thesis by auto
    next
      case True
      obtain now tr3 where n: "time_Now E ?tr2 = (now, tr3)"
        by (cases "time_Now E ?tr2") auto
      have tr3: "tr3 = ?tr2 @ [(Time_Now, R_time now)]"
        using n by (auto simp: time_Now_def)
      let ?msg = "''[agentsquad] update from '' @ [CHR 0x27] @ Title i1
                    @ [CHR 0x27] @ '' on '' @ env_rfc822 E now @ '' (paused)''"
      let ?cerr = "env_err E tr3 (Git_CommitChanges ?msg)"
      let ?g2 = "env_handle E tr3 (Git_CommitChanges ?msg) ?g1"
      let ?tr4 = "tr3 @ [(Git_CommitChanges ?msg, R_err ?cerr)]"
      have gc: "git_method E (Git_CommitChanges ?msg) (?g1, tr3) = (?cerr, ?g2, ?tr4)"
        by (simp add: git_method_def)
      show ?thesis
      proof (cases ?cerr)
        case None
        with True assms(1-3) w Some gm n gc
        have "Pause_detach E ?errs (i1\<lparr>gitWorktree := Some ?g2\<rparr>, ?tr4) = (r, i', tr')"
          by (simp add: Pause_def Let_def)
        from Pause_detach_ext [OF this] obtain ext where
          "tr' = ?tr4 @ ext" "\<forall>m rep. (Git_CommitChanges m, rep) \<notin> set ext"
          by blast
        with assms(4) ext0 nocommit0 tr3 None show ?thesis by auto
      next
        case (Some cerr)
        with True assms(1-3) w \<open>gitWorktree i1 = Some g\<close> gm n gc
        have res: "r = Returned (combineErrors (?errs @ [Errorf_w ''failed to commit changes: '' cerr]))"
          "i' = i1\<lparr>gitWorktree := Some ?g2\<rparr>" "tr' = ?tr4"
          by (simp_all add: Pause_def Let_def)
        have "\<exists>err. r = Returned (Some err)"
          using res(1) combineErrors_nonempty [of "?errs @ [Errorf_w ''failed to commit changes: '' cerr]"]
          by auto
        moreover have "drop (length tr) tr' =
            ext0 @ [(Git_IsDirty, R_bool ?dirty ?derr), (Time_Now, R_time now),
                    (Git_CommitChanges ?msg, R_err ?cerr)]"
          using res(3) ext0(1) tr3 by simp
        moreover have "Git_Remove \<notin> set (calls ext0)" "Git_Prune \<notin> set (calls ext0)"
          using ext0(2) by auto
        ultimately show ?thesis
          using res(2) keep(1) assms(2) True by (auto simp: calls_def)
      qed
    qed
  qed
qed

text \<open>The example session in an environment in which the commit fails.\<close>

lemma Pause_commit_fails_run:
  "Pause commit_fails_env (example_session, []) =
     (Returned (Some (Err ''failed to commit changes: exit status 1'')),
      example_session,
      [(Git_IsDirty, R_bool True None),
       (Time_Now, R_time (Time 64135596800000000000)),
       (Git_CommitChanges (''[agentsquad] update from '' @ [CHR 0x27] @ ''s'' @ [CHR 0x27]
                            @ '' on  (paused)''),
        R_err (Some (Err ''exit status 1'')))])"
  by (simp add: Pause_def Let_def stopDiffWatcher_def git_method_bool_def git_method_def
      time_Now_def commit_fails_env_def calm_env_def example_session_def zero_Instance_def
      Running_def Paused_def combineErrors_def append_failure_def Errorf_w_def)

theorem Pause_commit_failure_witness:
  "started example_session \<and> Status example_session \<noteq> Paused \<and>
   fst (Pause commit_fails_env (example_session, [])) =
     Returned (Some (Err ''failed to commit changes: exit status 1'')) \<and>
   Git_Remove \<notin> set (calls (snd (snd (Pause commit_fails_env (example_session, []))))) \<and>
   Git_Prune \<notin> set (calls (snd (snd (Pause commit_fails_env (example_session, []))))) \<and>
   Status (fst (snd (Pause commit_fails_env (example_session, [])))) = Running"
proof -
  have h1: "started example_session" and h2: "Status example_session \<noteq> Paused"
    and st: "Status example_session = Running"
    by (simp_all add: example_session_def zero_Instance_def Running_def Paused_def)
  have h4: "(Git_CommitChanges (''[agentsquad] update from '' @ [CHR 0x27] @ ''s'' @ [CHR 0x27]
                            @ '' on  (paused)''), R_err (Some (Err ''exit status 1'')))
      \<in> set (drop (length ([] :: history))
          [(Git_IsDirty, R_bool True None),
           (Time_Now, R_time (Time 64135596800000000000)),
           (Git_CommitChanges (''[agentsquad] update from '' @ [CHR 0x27] @ ''s'' @ [CHR 0x27]
                            @ '' on  (paused)''),
            R_err (Some (Err ''exit status 1'')))])"
    by simp
  from Pause_commit_failure [OF h1 h2 Pause_commit_fails_run h4] h1 h2 st
  show ?thesis
    by (simp add: Pause_commit_fails_run)
qed

section \<open>What \<open>Start\<close> checks\<close>

text \<open>None of the steps of \<open>Start\<close> reads the \<open>started\<close> flag; only the deferred \<open>Kill\<close> does, and
  its result is not the result of \<open>Start\<close>.\<close>

lemma MarkDiffDirty_started: "MarkDiffDirty (i\<lparr>started := b\<rparr>) = (MarkDiffDirty i)\<lparr>started := b\<rparr>"
  by (simp add: MarkDiffDirty_def Let_def split: option.split)

lemma stopDiffWatcher_started:
  "stopDiffWatcher E (i\<lparr>started := b\<rparr>, tr) =
     (case stopDiffWatcher E (i, tr) of (e, i', tr') \<Rightarrow> (e, i'\<lparr>started := b\<rparr>, tr'))"
  by (simp add: stopDiffWatcher_def Let_def split: prod.split option.split)

lemma startDiffWatcher_started:
  "startDiffWatcher E (i\<lparr>started := b\<rparr>, tr) =
     (case startDiffWatcher E (i, tr) of (e, i', tr') \<Rightarrow> (e, i'\<lparr>started := b\<rparr>, tr'))"
  by (simp add: startDiffWatcher_def stopDiffWatcher_started addWatcherRecursive_def Let_def
      MarkDiffDirty_def split: prod.split option.split)

lemma Start_watch_started:
  "Start_watch E (i\<lparr>started := b\<rparr>, tr) =
     (case Start_watch E (i, tr) of (e, i', tr') \<Rightarrow> (e, i'\<lparr>started := b\<rparr>, tr'))"
  by (simp add: Start_watch_def startDiffWatcher_started MarkDiffDirty_def Let_def
      MarkPreviewDirty_def SetStatus_def split: prod.split option.split)

lemma fst_Start_deferred: "fst (Start_deferred E x) = fst x"
  by (cases x) (simp add: Start_deferred_def split: option.split prod.split)

lemma fst_Start_watch_started:
  "j = i\<lparr>started := b\<rparr> \<Longrightarrow> fst (Start_watch E (j, tr)) = fst (Start_watch E (i, tr))"
  by (simp add: Start_watch_started split: prod.split)

lemma GetBranch_started: "snd (GetBranch (i\<lparr>started := b\<rparr>)) = (snd (GetBranch i))\<lparr>started := b\<rparr>"
  by (simp add: GetBranch_def split: option.split)

lemma Start_ignores_started:
  "fst (Start E firstTimeSetup (i\<lparr>started := b\<rparr>, tr)) = fst (Start E firstTimeSetup (i, tr))"
proof (cases "Title i = []")
  case True
  then show ?thesis by (simp add: Start_def)
next
  case False
  show ?thesis
  proof (cases firstTimeSetup)
    case ft: False
    show ?thesis
    proof (cases "env_err E tr Tmux_Restore")
      case (Some err)
      with False ft show ?thesis
        by (simp add: Start_def Let_def fst_Start_deferred call_err_def)
    next
      case None
      with False ft show ?thesis
        apply (simp add: Start_def Let_def fst_Start_deferred call_err_def)
        apply (rule fst_Start_watch_started [where b = b])
        apply (simp add: GetBranch_def split: option.split)
        done
    qed
  next
    case ft: True
    let ?c = "Git_NewGitWorktree (Path i) (Title i)"
    let ?tr1 = "tr @ [(?c, R_err (env_err E tr ?c))]"
    let ?g = "env_new_worktree E tr ?c"
    let ?g1 = "env_handle E ?tr1 Git_Setup ?g"
    let ?tr2 = "?tr1 @ [(Git_Setup, R_err (env_err E ?tr1 Git_Setup))]"
    let ?c3 = "Tmux_Start (worktreePath ?g1)"
    show ?thesis
    proof (cases "env_err E tr ?c")
      case (Some err)
      with False ft show ?thesis
        by (simp add: Start_def Let_def NewGitWorktree_def)
    next
      case None
      show ?thesis
      proof (cases "env_err E ?tr1 Git_Setup")
        case (Some err)
        with None False ft show ?thesis
          by (simp add: Start_def Let_def NewGitWorktree_def fst_Start_deferred git_method_def)
      next
        case su: None
        show ?thesis
        proof (cases "env_err E ?tr2 ?c3")
          case (Some err)
          with None su False ft show ?thesis
            by (simp add: Start_def Let_def NewGitWorktree_def fst_Start_deferred git_method_def
                call_err_def split: option.split)
        next
          case tm: None
          with None su False ft show ?thesis
            apply (simp add: Start_def Let_def NewGitWorktree_def fst_Start_deferred
                git_method_def call_err_def)
            apply (rule fst_Start_watch_started [where b = b])
            apply (simp split: option.split)
            done
        qed
      qed
    qed
  qed
qed

text \<open>A run of \<open>Start\<close> that succeeds sets \<open>started\<close> itself, so it is the same run on a started
  and on an unstarted session.\<close>

lemma deferred_watch_started:
  assumes "j = i\<lparr>started := b\<rparr>" and "fst (Start_watch E (i, tr)) = None"
  shows "Start_deferred E (Start_watch E (j, tr)) = Start_deferred E (Start_watch E (i, tr))"
proof -
  obtain e i' tr' where w: "Start_watch E (i, tr) = (e, i', tr')"
    by (cases "Start_watch E (i, tr)") auto
  with assms(2) have e: "e = None" by simp
  from w assms(1) have "Start_watch E (j, tr) = (e, i'\<lparr>started := b\<rparr>, tr')"
    by (simp add: Start_watch_started)
  with w e show ?thesis by (simp add: Start_deferred_def)
qed

lemma Start_success_ignores_started:
  assumes "fst (Start E firstTimeSetup (i, tr)) = None"
  shows "Start E firstTimeSetup (i\<lparr>started := b\<rparr>, tr) = Start E firstTimeSetup (i, tr)"
proof (cases "Title i = []")
  case True
  with assms show ?thesis by (simp add: Start_def)
next
  case False
  show ?thesis
  proof (cases firstTimeSetup)
    case ft: False
    show ?thesis
    proof (cases "env_err E tr Tmux_Restore")
      case (Some err)
      with False ft assms show ?thesis
        by (simp add: Start_def Let_def fst_Start_deferred call_err_def)
    next
      case None
      with False ft assms show ?thesis
        apply (simp add: Start_def Let_def fst_Start_deferred call_err_def)
        apply (rule deferred_watch_started [where b = b])
         apply (simp add: GetBranch_def split: option.split)
        apply assumption
        done
    qed
  next
    case ft: True
    let ?c = "Git_NewGitWorktree (Path i) (Title i)"
    let ?tr1 = "tr @ [(?c, R_err (env_err E tr ?c))]"
    let ?g = "env_new_worktree E tr ?c"
    let ?g1 = "env_handle E ?tr1 Git_Setup ?g"
    let ?tr2 = "?tr1 @ [(Git_Setup, R_err (env_err E ?tr1 Git_Setup))]"
    let ?c3 = "Tmux_Start (worktreePath ?g1)"
    show ?thesis
    proof (cases "env_err E tr ?c")
      case (Some err)
      with False ft assms show ?thesis
        by (simp add: Start_def Let_def NewGitWorktree_def)
    next
      case None
      show ?thesis
      proof (cases "env_err E ?tr1 Git_Setup")
        case (Some err)
        with None False ft assms show ?thesis
          by (simp add: Start_def Let_def NewGitWorktree_def fst_Start_deferred git_method_def)
      next
        case su: None
        show ?thesis
        proof (cases "env_err E ?tr2 ?c3")
          case (Some err)
          with None su False ft assms show ?thesis
            by (simp add: Start_def Let_def NewGitWorktree_def fst_Start_deferred git_method_def
                call_err_def split: option.split)
        next
          case tm: None
          with None su False ft assms show ?thesis
            apply (simp add: Start_def Let_def NewGitWorktree_def fst_Start_deferred
                git_method_def call_err_def)
            apply (rule deferred_watch_started [where b = b])
             apply (simp split: option.split)
            apply assumption
            done
        qed
      qed
    qed
  qed
qed

text \<open>On a started session whose pane can be restored, \<open>Start\<close> succeeds.\<close>

lemma Start_example_run:
  "fst (Start calm_env False (example_session, [])) = None"
  by (simp add: Start_def Let_def Start_deferred_def Start_watch_def startDiffWatcher_def
      addWatcherRecursive_def call_err_def logged_def GetBranch_def calm_env_def
      example_session_def example_worktree_def NewGitWorktreeFromStorage_def zero_Instance_def
      split: prod.split)

theorem Start_on_started_counterexample:
  "started example_session \<and> Title example_session \<noteq> [] \<and>
   fst (Start calm_env False (example_session, [])) = None"
  by (simp add: Start_example_run) (simp add: example_session_def zero_Instance_def)

text \<open>
  C6, amended. \<open>Start(firstTime)\<close> on a session with an empty title returns the error
  ``instance title cannot be empty'' and changes nothing. \<open>Start\<close> does not check the \<open>started\<close>
  flag: the error it returns, or \<open>nil\<close>, is the same whether \<open>started\<close> is true or false, and a
  call that returns \<open>nil\<close> makes the same calls and leaves the same session in both cases.
\<close>

theorem Start_preconditions:
  "(Title i = [] \<longrightarrow>
      Start E firstTimeSetup (i, tr) = (Some (Err ''instance title cannot be empty''), i, tr)) \<and>
   fst (Start E firstTimeSetup (i\<lparr>started := b\<rparr>, tr)) = fst (Start E firstTimeSetup (i, tr)) \<and>
   (fst (Start E firstTimeSetup (i, tr)) = None \<longrightarrow>
      Start E firstTimeSetup (i\<lparr>started := b\<rparr>, tr) = Start E firstTimeSetup (i, tr))"
  by (simp add: Start_ignores_started Start_success_ignores_started) (simp add: Start_def)

theorem Start_preconditions_witness:
  "Title zero_Instance = [] \<and>
   Start calm_env True (zero_Instance, []) =
     (Some (Err ''instance title cannot be empty''), zero_Instance, []) \<and>
   fst (Start calm_env False (example_session, [])) = None \<and>
   Start calm_env False (example_session\<lparr>started := False\<rparr>, []) =
     Start calm_env False (example_session, [])"
proof -
  have h: "Title zero_Instance = []" by (simp add: zero_Instance_def)
  from Start_preconditions [THEN conjunct1, rule_format, OF h]
       Start_preconditions [THEN conjunct2, THEN conjunct2, rule_format, OF Start_example_run]
       h Start_example_run
  show ?thesis by simp
qed

text \<open>A failing run: the pane cannot be restored. The deferred \<open>Kill\<close> closes the pane and cleans
  the working copy up when the session was started, and does nothing when it was not.\<close>

lemma Start_restore_fails_run:
  "calls (snd (snd (Start restore_fails_env False (example_session, [])))) =
     [Tmux_Restore, Tmux_Close, Git_Cleanup]"
  "calls (snd (snd (Start restore_fails_env False (example_session\<lparr>started := False\<rparr>, [])))) =
     [Tmux_Restore]"
  by (simp_all add: Start_def Let_def Start_deferred_def Kill_def stopDiffWatcher_def
      call_err_def git_method_def calls_def append_failure_def combineErrors_def
      restore_fails_env_def calm_env_def example_session_def zero_Instance_def)


section \<open>The persistence round trip\<close>

lemma stopDiffWatcher_fields:
  assumes "stopDiffWatcher E (i, tr) = (e, i', tr')"
  shows "Title i' = Title i \<and> Path i' = Path i \<and> Branch i' = Branch i \<and> Height i' = Height i \<and>
         Width i' = Width i \<and> Program i' = Program i \<and> AutoYes i' = AutoYes i"
  using assms
  by (auto simp: stopDiffWatcher_def Let_def split: prod.splits)

lemma MarkDiffDirty_fields:
  "Title (MarkDiffDirty i) = Title i \<and> Path (MarkDiffDirty i) = Path i \<and>
   Branch (MarkDiffDirty i) = Branch i \<and> Height (MarkDiffDirty i) = Height i \<and>
   Width (MarkDiffDirty i) = Width i \<and> Program (MarkDiffDirty i) = Program i \<and>
   Status (MarkDiffDirty i) = Status i \<and> AutoYes (MarkDiffDirty i) = AutoYes i"
  by (simp add: MarkDiffDirty_def Let_def split: option.split)

lemma startDiffWatcher_fields:
  assumes "startDiffWatcher E (i, tr) = (e, i', tr')"
  shows "Title i' = Title i \<and> Path i' = Path i \<and> Branch i' = Branch i \<and> Height i' = Height i \<and>
         Width i' = Width i \<and> Program i' = Program i \<and> AutoYes i' = AutoYes i"
proof (cases "gitWorktree i")
  case None
  with assms show ?thesis by (simp add: startDiffWatcher_def)
next
  case (Some g)
  show ?thesis
  proof (cases "worktreePath g = []")
    case True
    with Some assms show ?thesis by (simp add: startDiffWatcher_def)
  next
    case False
    obtain i1 tr1 where s: "(if diffWatcher i
                 then (case stopDiffWatcher E (i, tr) of (_, i', tr') \<Rightarrow> (i', tr'))
                 else (i, tr)) = (i1, tr1)"
      by (cases "(if diffWatcher i
                 then (case stopDiffWatcher E (i, tr) of (_, i', tr') \<Rightarrow> (i', tr'))
                 else (i, tr))") auto
    have f1: "Title i1 = Title i \<and> Path i1 = Path i \<and> Branch i1 = Branch i \<and>
              Height i1 = Height i \<and> Width i1 = Width i \<and> Program i1 = Program i \<and>
              AutoYes i1 = AutoYes i"
      using s stopDiffWatcher_fields [of E i tr]
      by (auto split: if_splits prod.splits)
    from assms Some False s have
      "i' = MarkDiffDirty (i1\<lparr>diffWatcherDisabled := True\<rparr>) \<or>
       i' = MarkDiffDirty (i1\<lparr>diffWatcher := True, diffWatcherDisabled := False,
                                diffWatchCtx := True, diffWatchCancel := True\<rparr>) \<or>
       i' = MarkDiffDirty (i1\<lparr>diffWatcher := True, diffWatcherDisabled := False,
                                diffWatchCtx := True, diffWatchCancel := True,
                                diffWatcher := False, diffWatchCtx := False,
                                diffWatchCancel := False, diffWatcherDisabled := True\<rparr>)"
      by (auto simp: startDiffWatcher_def Let_def split: option.splits prod.splits)
    with f1 show ?thesis
      by (auto simp: MarkDiffDirty_fields)
  qed
qed

lemma Start_watch_success:
  assumes "Start_watch E (i, tr) = (None, i', tr')"
  shows "Title i' = Title i \<and> Path i' = Path i \<and> Branch i' = Branch i \<and> Height i' = Height i \<and>
         Width i' = Width i \<and> Program i' = Program i \<and> Status i' = Running \<and>
         AutoYes i' = AutoYes i"
proof -
  obtain e i1 tr1 where w: "startDiffWatcher E (i, tr) = (e, i1, tr1)"
    by (cases "startDiffWatcher E (i, tr)") auto
  with assms have "e = None"
    and i': "i' = SetStatus Running ((MarkDiffDirty (MarkPreviewDirty i1))\<lparr>lastDiffCheck := 0\<rparr>)"
    by (auto simp: Start_watch_def split: option.splits)
  from startDiffWatcher_fields [OF w] i' show ?thesis
    by (simp add: SetStatus_def MarkDiffDirty_fields MarkPreviewDirty_def)
qed

lemma Start_restored_success:
  assumes "Start E False (j, tr) = (None, j', tr')" and "gitWorktree j = Some g"
  shows "Title j' = Title j \<and> Path j' = Path j \<and> Height j' = Height j \<and> Width j' = Width j \<and>
         Program j' = Program j \<and> Status j' = Running \<and> Branch j' = branchName g \<and>
         AutoYes j' = AutoYes j"
proof -
  have t: "Title j \<noteq> []"
    using assms(1) by (auto simp: Start_def)
  let ?t = "case tmuxSession j of Some t \<Rightarrow> t | None \<Rightarrow> NewTmuxSession (Title j) (Program j)"
  let ?j1 = "j\<lparr>tmuxSession := Some ?t\<rparr>"
  let ?tr1 = "tr @ [(Tmux_Restore, R_err (env_err E tr Tmux_Restore))]"
  have r: "env_err E tr Tmux_Restore = None"
  proof (cases "env_err E tr Tmux_Restore")
    case (Some err)
    with t have "fst (Start E False (j, tr)) \<noteq> None"
      by (simp add: Start_def Let_def fst_Start_deferred call_err_def)
    with assms(1) show ?thesis by simp
  qed simp
  obtain e i2 tr2 where w: "Start_watch E (snd (GetBranch ?j1), ?tr1) = (e, i2, tr2)"
    by (cases "Start_watch E (snd (GetBranch ?j1), ?tr1)") auto
  from t r w have "fst (Start E False (j, tr)) = e"
    by (simp add: Start_def Let_def fst_Start_deferred call_err_def)
  with assms(1) have e: "e = None" by simp
  from t r w e assms(1) have j': "j' = i2\<lparr>started := True\<rparr>"
    by (simp add: Start_def Let_def Start_deferred_def call_err_def)
  have b: "snd (GetBranch ?j1) = ?j1\<lparr>Branch := branchName g\<rparr>"
    using assms(2) by (simp add: GetBranch_def)
  from Start_watch_success [OF w [unfolded e]] j' b show ?thesis
    by simp
qed

text \<open>The record of the waiting example session, and the session loaded from it.\<close>

lemma ToInstanceData_example:
  "ToInstanceData calm_env (ready_session, []) =
     (\<lparr>d_Title = ''s'', d_Path = [], d_Branch = ''old-branch'', d_Status = Ready,
       d_Height = 0, d_Width = 0, d_CreatedAt = zero_Time,
       d_UpdatedAt = Time 64135596800000000000, d_AutoYes = False, d_Program = [],
       d_Worktree = \<lparr>RepoPath = ''/repo'', WorktreePath = ''/wt'', SessionName = ''s'',
                      BranchName = ''main'', BaseCommitSHA = ''abc''\<rparr>,
       d_DiffStats = \<lparr>d_Added = 0, d_Removed = 0, d_Content = []\<rparr>\<rparr>,
      [(Time_Now, R_time (Time 64135596800000000000))])"
  by (simp add: ToInstanceData_def time_Now_def calm_env_def example_session_def
      ready_session_def example_worktree_def NewGitWorktreeFromStorage_def zero_Instance_def)

lemma FromInstanceData_example:
  "FromInstanceData calm_env
     \<lparr>d_Title = ''s'', d_Path = [], d_Branch = ''old-branch'', d_Status = Ready,
       d_Height = 0, d_Width = 0, d_CreatedAt = zero_Time,
       d_UpdatedAt = Time 64135596800000000000, d_AutoYes = False, d_Program = [],
       d_Worktree = \<lparr>RepoPath = ''/repo'', WorktreePath = ''/wt'', SessionName = ''s'',
                      BranchName = ''main'', BaseCommitSHA = ''abc''\<rparr>,
       d_DiffStats = \<lparr>d_Added = 0, d_Removed = 0, d_Content = []\<rparr>\<rparr>
     [(Time_Now, R_time (Time 64135596800000000000))] =
   (Inr reloaded_session,
    [(Time_Now, R_time (Time 64135596800000000000)), (Tmux_Restore, R_err None),
     (Watcher_New, R_err None), (Watcher_AddRecursive ''/wt'', R_err None),
     (Watcher_Run, R_unit)])"
  by (simp add: FromInstanceData_def Let_def is_Paused_def Ready_def Paused_def Running_def
      Start_def Start_deferred_def Start_watch_def startDiffWatcher_def
      addWatcherRecursive_def call_err_def logged_def GetBranch_def calm_env_def
      MarkDiffDirty_def MarkPreviewDirty_def SetStatus_def InvalidateDiffCache_def
      reloaded_session_def example_worktree_def NewGitWorktreeFromStorage_def zero_Instance_def
      zero_Time_def)

text \<open>The session loaded from the record of a \<open>Ready\<close> session is \<open>Running\<close>, and its branch is
  the one of the handle, not the one of the \<open>Branch\<close> field.\<close>

theorem roundtrip_counterexample:
  "started ready_session \<and> Status ready_session = Ready \<and> Branch ready_session = ''old-branch'' \<and>
   map_sum id Status
     (fst (FromInstanceData calm_env (fst (ToInstanceData calm_env (ready_session, [])))
             (snd (ToInstanceData calm_env (ready_session, []))))) = Inr Running \<and>
   map_sum id Branch
     (fst (FromInstanceData calm_env (fst (ToInstanceData calm_env (ready_session, [])))
             (snd (ToInstanceData calm_env (ready_session, []))))) = Inr ''main'' \<and>
   Ready \<noteq> Running"
  by (simp add: ToInstanceData_example FromInstanceData_example)
     (simp add: reloaded_session_def ready_session_def example_session_def zero_Instance_def
       Ready_def Running_def)

text \<open>
  C7, amended. When a session is converted to its serialized record and a session is
  materialized from that record without error, the \<open>title\<close>, \<open>path\<close>, \<open>height\<close>, \<open>width\<close> and
  \<open>program\<close> fields equal the original's; the \<open>status\<close> is \<open>Paused\<close> if the original was paused and
  \<open>Running\<close> otherwise; the \<open>branch\<close> is the branch name of the original's checkout handle
  (empty without a handle).
\<close>

theorem roundtrip_fields:
  assumes "ToInstanceData E (i, tr) = (data, tr1)"
    and "FromInstanceData E data tr1 = (Inr i', tr2)"
  shows "Title i' = Title i \<and> Path i' = Path i \<and> Height i' = Height i \<and> Width i' = Width i \<and>
         Program i' = Program i \<and>
         Status i' = (if Status i = Paused then Paused else Running) \<and>
         Branch i' = (case gitWorktree i of None \<Rightarrow> [] | Some g \<Rightarrow> branchName g)"
proof -
  from assms(1) have d: "d_Title data = Title i" "d_Path data = Path i"
    "d_Status data = Status i" "d_Height data = Height i" "d_Width data = Width i"
    "d_Program data = Program i"
    "BranchName (d_Worktree data) = (case gitWorktree i of None \<Rightarrow> [] | Some g \<Rightarrow> branchName g)"
    by (auto simp: ToInstanceData_def time_Now_def split: option.splits)
  let ?g = "NewGitWorktreeFromStorage
                (RepoPath (d_Worktree data)) (WorktreePath (d_Worktree data))
                (SessionName (d_Worktree data)) (BranchName (d_Worktree data))
                (BaseCommitSHA (d_Worktree data))"
  let ?inst = "zero_Instance
            \<lparr>Title := d_Title data, Path := d_Path data, Branch := d_Branch data,
             Status := d_Status data, Height := d_Height data, Width := d_Width data,
             CreatedAt := d_CreatedAt data, UpdatedAt := d_UpdatedAt data,
             Program := d_Program data,
             gitWorktree := Some ?g,
             diffStats := Some \<lparr>Content = d_Content (d_DiffStats data),
                                 Added = d_Added (d_DiffStats data),
                                 Removed = d_Removed (d_DiffStats data), Error = None\<rparr>,
             previewDirty := True, diffDirty := True, lastDiffCheck := 0\<rparr>"
  have bn: "branchName ?g = BranchName (d_Worktree data)"
    by (simp add: NewGitWorktreeFromStorage_def)
  show ?thesis
  proof (cases "Status i = Paused")
    case True
    with assms(2) d have "i' = snd (GetBranch
                   (?inst\<lparr>started := True,
                             tmuxSession := Some (NewTmuxSession (Title ?inst) (Program ?inst))\<rparr>))"
      by (simp add: FromInstanceData_def Let_def is_Paused_def)
    with d bn True show ?thesis
      by (simp add: GetBranch_def)
  next
    case False
    with assms(2) d have "Start E False (?inst, tr1) = (None, i', tr2)"
      by (auto simp: FromInstanceData_def Let_def is_Paused_def split: option.splits prod.splits)
    from Start_restored_success [OF this, of ?g] d bn False show ?thesis
      by simp
  qed
qed

theorem roundtrip_fields_witness:
  "fst (FromInstanceData calm_env (fst (ToInstanceData calm_env (ready_session, [])))
          (snd (ToInstanceData calm_env (ready_session, [])))) = Inr reloaded_session \<and>
   Title reloaded_session = Title ready_session \<and> Path reloaded_session = Path ready_session \<and>
   Height reloaded_session = Height ready_session \<and>
   Width reloaded_session = Width ready_session \<and>
   Program reloaded_session = Program ready_session \<and>
   Status reloaded_session = Running \<and> Branch reloaded_session = ''main''"
proof -
  have g: "gitWorktree ready_session = Some example_worktree" "Status ready_session \<noteq> Paused"
    "branchName example_worktree = ''main''"
    by (simp_all add: ready_session_def example_session_def example_worktree_def
        NewGitWorktreeFromStorage_def zero_Instance_def Ready_def Paused_def)
  from roundtrip_fields [OF ToInstanceData_example FromInstanceData_example] g
  show ?thesis
    by (simp add: ToInstanceData_example FromInstanceData_example)
qed

text \<open>\<open>FromInstanceData\<close> does not read the \<open>auto_yes\<close> field of the record: a loaded session
  never has \<open>AutoYes\<close> set.\<close>

lemma FromInstanceData_AutoYes:
  assumes "FromInstanceData E data tr = (Inr i', tr')"
  shows "AutoYes i' = False"
proof -
  let ?g = "NewGitWorktreeFromStorage
                (RepoPath (d_Worktree data)) (WorktreePath (d_Worktree data))
                (SessionName (d_Worktree data)) (BranchName (d_Worktree data))
                (BaseCommitSHA (d_Worktree data))"
  let ?inst = "zero_Instance
            \<lparr>Title := d_Title data, Path := d_Path data, Branch := d_Branch data,
             Status := d_Status data, Height := d_Height data, Width := d_Width data,
             CreatedAt := d_CreatedAt data, UpdatedAt := d_UpdatedAt data,
             Program := d_Program data,
             gitWorktree := Some ?g,
             diffStats := Some \<lparr>Content = d_Content (d_DiffStats data),
                                 Added = d_Added (d_DiffStats data),
                                 Removed = d_Removed (d_DiffStats data), Error = None\<rparr>,
             previewDirty := True, diffDirty := True, lastDiffCheck := 0\<rparr>"
  have a: "AutoYes ?inst = False" by (simp add: zero_Instance_def)
  show ?thesis
  proof (cases "d_Status data = Paused")
    case True
    with assms have "i' = snd (GetBranch
                   (?inst\<lparr>started := True,
                             tmuxSession := Some (NewTmuxSession (Title ?inst) (Program ?inst))\<rparr>))"
      by (simp add: FromInstanceData_def Let_def is_Paused_def)
    with a show ?thesis by (simp add: GetBranch_def)
  next
    case False
    with assms have "Start E False (?inst, tr) = (None, i', tr')"
      by (auto simp: FromInstanceData_def Let_def is_Paused_def split: option.splits prod.splits)
    from Start_restored_success [OF this, of ?g] a show ?thesis by simp
  qed
qed

section \<open>Saving twice, and flushing\<close>

lemma store_writes_append: "store_writes (tr @ tr') = store_writes tr @ store_writes tr'"
  by (induction tr rule: store_writes.induct) auto

lemma bytes_Equal_clone: "bytes_Equal (Some b) (cloneBytes (Some b))"
  by (simp add: bytes_Equal_def cloneBytes_def len_def)

lemma SaveInstances_locked_write_through:
  assumes "\<not> (bytes_Equal (Some b) (lastSavedData s) \<and> pendingData s = None)"
    and "IsZero (lastSaveTime s) \<or> debounceInterval s \<le> Sub (env_time E tr) (lastSaveTime s)"
    and "env_err E (tr @ [(Time_Now, R_time (env_time E tr))])
           (Store_SaveInstances (cloneBytes (Some b))) = None"
  shows "SaveInstances_locked E b (s, tr) =
     (None,
      s\<lparr>lastSavedData := cloneBytes (Some b), lastSaveTime := env_time E tr,
        pendingData := None, debounceTimer := None\<rparr>,
      tr @ [(Time_Now, R_time (env_time E tr)),
            (Store_SaveInstances (cloneBytes (Some b)), R_err None)]
         @ (if debounceTimer s \<noteq> None then [(Timer_Stop, R_unit)] else []))"
  using assms
  by (auto simp: SaveInstances_locked_def time_Now_def writeLocked_def call_err_def
      trackImmediateSave_def stop_timer_def logged_def)

lemma SaveInstances_locked_unchanged:
  assumes "bytes_Equal (Some b) (lastSavedData s)" and "pendingData s = None"
  shows "SaveInstances_locked E b (s, tr) = (None, s, tr)"
  using assms by (simp add: SaveInstances_locked_def)

lemma SaveInstances_loop_unstarted:
  "\<forall>i \<in> set instances. \<not> Started i \<Longrightarrow>
     SaveInstances_loop E instances (data, tr) = (data, tr)"
  by (induction instances) auto

text \<open>Two runs in \<open>calm_env\<close> with the empty list, whose bytes are \<open>[]\<close>: on a registry that
  saved a second ago, and on one with a write pending.\<close>

lemma SaveInstances_recent_run:
  "SaveInstances calm_env [] (recent_storage, []) =
     (None, pending_storage,
      [(Time_Now, R_time (Time 64135596800000000000)),
       (Timer_AfterFunc 4000000000, R_unit)])"
  by (simp add: SaveInstances_def SaveInstances_locked_def time_Now_def logged_def
      calm_env_def NewStorage_def recent_storage_def pending_storage_def
      bytes_Equal_def cloneBytes_def len_def IsZero_def Sub_def Let_def Second_def
      maxDuration_def minDuration_def wrap64_def)

lemma SaveInstances_pending_run:
  "SaveInstances calm_env [] (pending_storage, tr) =
     (None, pending_storage, tr @ [(Time_Now, R_time (Time 64135596800000000000))])"
  by (simp add: SaveInstances_def SaveInstances_locked_def time_Now_def logged_def
      calm_env_def NewStorage_def recent_storage_def pending_storage_def
      bytes_Equal_def cloneBytes_def len_def IsZero_def Sub_def Let_def Second_def
      maxDuration_def minDuration_def wrap64_def)

text \<open>A started session on a fresh registry, with the clock advancing: the record of the second
  save has a later \<open>updated_at\<close>, so its bytes differ from the saved ones; they are queued
  behind the timer, and the timer writes them.\<close>

lemma started_first_save:
  "SaveInstances ticking_env [started_session] (NewStorage, []) =
     (None,
      NewStorage\<lparr>lastSavedData := Some ''[{}]'', lastSaveTime := Time 64135596800001000000\<rparr>,
      [(Time_Now, R_time (Time 64135596800000000000)),
       (Time_Now, R_time (Time 64135596800001000000)),
       (Store_SaveInstances (Some ''[{}]''), R_err None)])"
  by (simp add: SaveInstances_def SaveInstances_locked_def time_Now_def writeLocked_def
      call_err_def trackImmediateSave_def stop_timer_def ticking_env_def calm_env_def
      NewStorage_def bytes_Equal_def cloneBytes_def len_def IsZero_def zero_Time_def
      Started_def ToInstanceData_def started_session_def zero_Instance_def)

lemma started_second_save:
  "SaveInstances ticking_env [started_session]
     (NewStorage\<lparr>lastSavedData := Some ''[{}]'', lastSaveTime := Time 64135596800001000000\<rparr>,
      [(Time_Now, R_time (Time 64135596800000000000)),
       (Time_Now, R_time (Time 64135596800001000000)),
       (Store_SaveInstances (Some ''[{}]''), R_err None)]) =
     (None,
      NewStorage\<lparr>lastSavedData := Some ''[{}]'', lastSaveTime := Time 64135596800001000000,
                 pendingData := Some ''[{|||}]'', debounceTimer := Some 4997000000\<rparr>,
      [(Time_Now, R_time (Time 64135596800000000000)),
       (Time_Now, R_time (Time 64135596800001000000)),
       (Store_SaveInstances (Some ''[{}]''), R_err None),
       (Time_Now, R_time (Time 64135596800003000000)),
       (Time_Now, R_time (Time 64135596800004000000)),
       (Timer_AfterFunc 4997000000, R_unit)])"
  by (simp add: SaveInstances_def SaveInstances_locked_def time_Now_def writeLocked_def
      call_err_def logged_def ticking_env_def calm_env_def
      NewStorage_def bytes_Equal_def cloneBytes_def len_def IsZero_def zero_Time_def
      Sub_def Let_def Second_def maxDuration_def minDuration_def wrap64_def
      Started_def ToInstanceData_def started_session_def zero_Instance_def numeral_3_eq_3)

lemma started_timer_fires:
  "flushPending ticking_env
     (NewStorage\<lparr>lastSavedData := Some ''[{}]'', lastSaveTime := Time 64135596800001000000,
                 pendingData := Some ''[{|||}]'', debounceTimer := Some 4997000000\<rparr>,
      [(Time_Now, R_time (Time 64135596800000000000)),
       (Time_Now, R_time (Time 64135596800001000000)),
       (Store_SaveInstances (Some ''[{}]''), R_err None),
       (Time_Now, R_time (Time 64135596800003000000)),
       (Time_Now, R_time (Time 64135596800004000000)),
       (Timer_AfterFunc 4997000000, R_unit)]) =
     (NewStorage\<lparr>lastSavedData := Some ''[{|||}]'', lastSaveTime := Time 64135596800007000000\<rparr>,
      [(Time_Now, R_time (Time 64135596800000000000)),
       (Time_Now, R_time (Time 64135596800001000000)),
       (Store_SaveInstances (Some ''[{}]''), R_err None),
       (Time_Now, R_time (Time 64135596800003000000)),
       (Time_Now, R_time (Time 64135596800004000000)),
       (Timer_AfterFunc 4997000000, R_unit),
       (Store_SaveInstances (Some ''[{|||}]''), R_err None),
       (Time_Now, R_time (Time 64135596800007000000))])"
  by (simp add: flushPending_def Let_def time_Now_def writeLocked_def call_err_def
      ticking_env_def calm_env_def NewStorage_def cloneBytes_def len_def)

text \<open>With a started session in the list, the second of two saves of the unchanged list does
  not find its bytes saved: it leaves a write pending and the timer armed, and the list reaches
  the byte store twice. Within the debounce interval of an earlier save, two saves of the
  empty list write nothing.\<close>

theorem SaveInstances_twice_counterexample:
  "Started started_session \<and>
   store_writes
     (snd (snd (SaveInstances ticking_env [started_session]
        (fst (snd (SaveInstances ticking_env [started_session] (NewStorage, []))),
         snd (snd (SaveInstances ticking_env [started_session] (NewStorage, []))))))) =
     [Some ''[{}]''] \<and>
   pendingData
     (fst (snd (SaveInstances ticking_env [started_session]
        (fst (snd (SaveInstances ticking_env [started_session] (NewStorage, []))),
         snd (snd (SaveInstances ticking_env [started_session] (NewStorage, []))))))) =
     Some ''[{|||}]'' \<and>
   debounceTimer
     (fst (snd (SaveInstances ticking_env [started_session]
        (fst (snd (SaveInstances ticking_env [started_session] (NewStorage, []))),
         snd (snd (SaveInstances ticking_env [started_session] (NewStorage, []))))))) =
     Some 4997000000 \<and>
   store_writes
     (snd (flushPending ticking_env
        (snd (SaveInstances ticking_env [started_session]
           (fst (snd (SaveInstances ticking_env [started_session] (NewStorage, []))),
            snd (snd (SaveInstances ticking_env [started_session] (NewStorage, [])))))))) =
     [Some ''[{}]'', Some ''[{|||}]''] \<and>
   store_writes
     (snd (snd (SaveInstances calm_env []
        (fst (snd (SaveInstances calm_env [] (recent_storage, []))),
         snd (snd (SaveInstances calm_env [] (recent_storage, []))))))) = []"
  by (simp add: started_first_save started_second_save started_timer_fires
      SaveInstances_recent_run SaveInstances_pending_run)
     (simp add: Started_def started_session_def zero_Instance_def)

text \<open>
  C3, amended. For a session list that holds no started session, both of two calls of
  \<open>SaveInstances\<close> in a row serialize the same, empty list of records, to the same bytes \<open>b\<close>.
  When the first call writes through (\<open>b\<close> differs from \<open>last_saved_bytes\<close> or a write is pending;
  \<open>last_save_time\<close> is unset or the debounce interval has elapsed; the byte store accepts the
  write), the two calls perform exactly one write to the byte store, of \<open>b\<close>: the second call
  returns success without I/O and leaves the registry as it is, because \<open>b\<close> equals
  \<open>last_saved_bytes\<close> and no write is pending.
\<close>

theorem SaveInstances_twice:
  assumes "\<forall>i \<in> set instances. \<not> Started i"
    and "env_marshal E [] = Inr b"
    and "\<not> (bytes_Equal (Some b) (lastSavedData s) \<and> pendingData s = None)"
    and "IsZero (lastSaveTime s) \<or> debounceInterval s \<le> Sub (env_time E tr) (lastSaveTime s)"
    and "env_err E (tr @ [(Time_Now, R_time (env_time E tr))])
           (Store_SaveInstances (cloneBytes (Some b))) = None"
    and "SaveInstances E instances (s, tr) = (r1, s1, tr1)"
    and "SaveInstances E instances (s1, tr1) = (r2, s2, tr2)"
  shows "r1 = None \<and> r2 = None \<and>
         store_writes (drop (length tr) tr2) = [cloneBytes (Some b)] \<and>
         lastSavedData s1 = cloneBytes (Some b) \<and> pendingData s1 = None \<and>
         s2 = s1 \<and> tr2 = tr1"
proof -
  let ?ext = "[(Time_Now, R_time (env_time E tr)),
            (Store_SaveInstances (cloneBytes (Some b)), R_err None)]
         @ (if debounceTimer s \<noteq> None then [(Timer_Stop, R_unit)] else [])"
  have loop: "\<And>tr'. SaveInstances_loop E instances ([], tr') = ([], tr')"
    using SaveInstances_loop_unstarted [OF assms(1)] .
  from assms(2,6) loop SaveInstances_locked_write_through [OF assms(3,4,5)]
  have first: "r1 = None"
    "s1 = s\<lparr>lastSavedData := cloneBytes (Some b), lastSaveTime := env_time E tr,
        pendingData := None, debounceTimer := None\<rparr>"
    "tr1 = tr @ ?ext"
    by (simp_all add: SaveInstances_def)
  have eq: "bytes_Equal (Some b) (lastSavedData s1)" "pendingData s1 = None"
    using first(2) by (simp_all add: bytes_Equal_clone)
  from SaveInstances_locked_unchanged [OF eq] assms(2,7) loop
  have second: "r2 = None" "s2 = s1" "tr2 = tr1"
    by (simp_all add: SaveInstances_def)
  have "store_writes (drop (length tr) tr2) = [cloneBytes (Some b)]"
    using second(3) first(3) by (simp add: store_writes_append)
  with first second eq show ?thesis by simp
qed

text \<open>A list with one session that was never started, on a registry that saved other bytes ten
  seconds ago.\<close>

lemma SaveInstances_stale_run:
  "SaveInstances calm_env [draft_session] (stale_storage, []) =
     (None,
      NewStorage\<lparr>lastSavedData := Some ''[]'', lastSaveTime := Time 64135596800000000000\<rparr>,
      [(Time_Now, R_time (Time 64135596800000000000)),
       (Store_SaveInstances (Some ''[]''), R_err None)])"
  by (simp add: SaveInstances_def SaveInstances_locked_def time_Now_def writeLocked_def
      call_err_def trackImmediateSave_def stop_timer_def calm_env_def NewStorage_def
      stale_storage_def bytes_Equal_def cloneBytes_def len_def IsZero_def zero_Time_def
      Sub_def Let_def Second_def maxDuration_def minDuration_def
      Started_def draft_session_def zero_Instance_def)

lemma SaveInstances_draft_saved_run:
  "SaveInstances calm_env [draft_session]
     (NewStorage\<lparr>lastSavedData := Some ''[]'', lastSaveTime := Time 64135596800000000000\<rparr>, tr) =
     (None,
      NewStorage\<lparr>lastSavedData := Some ''[]'', lastSaveTime := Time 64135596800000000000\<rparr>,
      tr)"
  by (simp add: SaveInstances_def SaveInstances_locked_def calm_env_def NewStorage_def
      bytes_Equal_def Started_def draft_session_def zero_Instance_def)

theorem SaveInstances_twice_witness:
  "Started draft_session = False \<and>
   fst (SaveInstances calm_env [draft_session] (stale_storage, [])) = None \<and>
   fst (SaveInstances calm_env [draft_session]
     (fst (snd (SaveInstances calm_env [draft_session] (stale_storage, []))),
      snd (snd (SaveInstances calm_env [draft_session] (stale_storage, []))))) = None \<and>
   store_writes
     (snd (snd (SaveInstances calm_env [draft_session]
        (fst (snd (SaveInstances calm_env [draft_session] (stale_storage, []))),
         snd (snd (SaveInstances calm_env [draft_session] (stale_storage, []))))))) =
     [Some ''[]'']"
proof -
  have h1: "\<forall>i \<in> set [draft_session]. \<not> Started i"
    by (simp add: Started_def draft_session_def zero_Instance_def)
  have h2: "env_marshal calm_env [] = Inr ''[]''" by (simp add: calm_env_def)
  have h3: "\<not> (bytes_Equal (Some ''[]'') (lastSavedData stale_storage) \<and>
              pendingData stale_storage = None)"
    by (simp add: stale_storage_def NewStorage_def bytes_Equal_def)
  have h4: "IsZero (lastSaveTime stale_storage) \<or>
            debounceInterval stale_storage \<le> Sub (env_time calm_env []) (lastSaveTime stale_storage)"
    by (simp add: stale_storage_def NewStorage_def calm_env_def Sub_def Let_def Second_def
        maxDuration_def minDuration_def)
  have h5: "env_err calm_env ([] @ [(Time_Now, R_time (env_time calm_env []))])
           (Store_SaveInstances (cloneBytes (Some ''[]''))) = None"
    by (simp add: calm_env_def)
  from SaveInstances_twice [OF h1 h2 h3 h4 h5 SaveInstances_stale_run
         SaveInstances_draft_saved_run] h1
  show ?thesis
    by (simp add: SaveInstances_stale_run SaveInstances_draft_saved_run cloneBytes_def len_def)
qed

text \<open>When the byte store refuses the write, \<open>Flush\<close> returns the error: the bytes stay pending,
  \<open>last_saved_bytes\<close> is as before and the timer stays armed.\<close>

lemma Flush_refused_run:
  "Flush store_refuses_env (pending_storage, []) =
     (Some (Err ''disk full''), pending_storage,
      [(Store_SaveInstances (Some ''[]''), R_err (Some (Err ''disk full'')))])"
  by (simp add: Flush_def Let_def writeLocked_def call_err_def store_refuses_env_def
      calm_env_def pending_storage_def recent_storage_def NewStorage_def cloneBytes_def len_def)

theorem Flush_refused_counterexample:
  "pendingData pending_storage = Some ''[]'' \<and>
   fst (Flush store_refuses_env (pending_storage, [])) = Some (Err ''disk full'') \<and>
   lastSavedData (fst (snd (Flush store_refuses_env (pending_storage, [])))) = Some ''[{}]'' \<and>
   pendingData (fst (snd (Flush store_refuses_env (pending_storage, [])))) = Some ''[]'' \<and>
   debounceTimer (fst (snd (Flush store_refuses_env (pending_storage, [])))) = Some 4000000000"
  by (simp add: Flush_refused_run) (simp add: pending_storage_def recent_storage_def)

text \<open>
  C4, amended. \<open>Flush()\<close> is a no-op returning success when no write is pending. When a write
  is pending and the byte store accepts it, \<open>Flush\<close> writes the pending bytes to the byte store,
  sets \<open>last_saved_bytes\<close> to those bytes and \<open>last_save_time\<close> to the time read after the write,
  clears the pending buffer, and stops and clears the debounce timer if one is armed. When the
  byte store refuses the write, \<open>Flush\<close> returns its error and changes nothing.
\<close>

theorem Flush_contract:
  "(len (pendingData s) = 0 \<longrightarrow> Flush E (s, tr) = (None, s, tr)) \<and>
   (pendingData s = Some b \<and> b \<noteq> [] \<and>
    env_err E tr (Store_SaveInstances (Some b)) = None \<longrightarrow>
      (\<exists>now. Flush E (s, tr) =
         (None,
          s\<lparr>lastSavedData := Some b, lastSaveTime := now, pendingData := None,
            debounceTimer := None\<rparr>,
          tr @ [(Store_SaveInstances (Some b), R_err None), (Time_Now, R_time now)]
             @ (if debounceTimer s \<noteq> None then [(Timer_Stop, R_unit)] else [])))) \<and>
   (pendingData s = Some b \<and> b \<noteq> [] \<and>
    env_err E tr (Store_SaveInstances (Some b)) = Some err \<longrightarrow>
      Flush E (s, tr) = (Some err, s, tr @ [(Store_SaveInstances (Some b), R_err (Some err))]))"
  by (auto simp: Flush_def Let_def len_def cloneBytes_def writeLocked_def call_err_def
      time_Now_def stop_timer_def logged_def)

theorem Flush_contract_witness:
  "len (pendingData NewStorage) = 0 \<and> Flush calm_env (NewStorage, []) = (None, NewStorage, []) \<and>
   pendingData pending_storage = Some ''[]'' \<and>
   (\<exists>now. Flush calm_env (pending_storage, []) =
      (None,
       pending_storage\<lparr>lastSavedData := Some ''[]'', lastSaveTime := now, pendingData := None,
                        debounceTimer := None\<rparr>,
       [(Store_SaveInstances (Some ''[]''), R_err None), (Time_Now, R_time now),
        (Timer_Stop, R_unit)])) \<and>
   Flush store_refuses_env (pending_storage, []) =
     (Some (Err ''disk full''), pending_storage,
      [(Store_SaveInstances (Some ''[]''), R_err (Some (Err ''disk full'')))])"
proof -
  have h1: "len (pendingData NewStorage) = 0" by (simp add: NewStorage_def len_def)
  have h2: "pendingData pending_storage = Some ''[]'' \<and> ''[]'' \<noteq> [] \<and>
    env_err calm_env [] (Store_SaveInstances (Some ''[]'')) = None"
    by (simp add: pending_storage_def calm_env_def)
  have h3: "pendingData pending_storage = Some ''[]'' \<and> ''[]'' \<noteq> [] \<and>
    env_err store_refuses_env [] (Store_SaveInstances (Some ''[]'')) = Some (Err ''disk full'')"
    by (simp add: pending_storage_def store_refuses_env_def calm_env_def)
  have t: "debounceTimer pending_storage \<noteq> None" by (simp add: pending_storage_def)
  from Flush_contract [THEN conjunct1, rule_format, OF h1]
       Flush_contract [THEN conjunct2, THEN conjunct1, rule_format, OF h2]
       Flush_contract [THEN conjunct2, THEN conjunct2, rule_format, OF h3] h1 h2 t
  show ?thesis by simp
qed


text \<open>The scenario of the repository's storage test, with a debounce interval of 50 ms and a
  clock that stands still: the first save writes, the identical second one does not, the third
  with a started session is queued behind a timer of one second, and \<open>Flush\<close> writes it and
  stops the timer.\<close>

lemma debounce_and_flush_scenario:
  "SaveInstances calm_env [] (NewStorage\<lparr>debounceInterval := 50 * Millisecond\<rparr>, []) =
     (None,
      NewStorage\<lparr>debounceInterval := 50 * Millisecond, lastSavedData := Some ''[]'',
                 lastSaveTime := Time 64135596800000000000\<rparr>,
      [(Time_Now, R_time (Time 64135596800000000000)),
       (Store_SaveInstances (Some ''[]''), R_err None)])"
  "SaveInstances calm_env []
     (NewStorage\<lparr>debounceInterval := 50 * Millisecond, lastSavedData := Some ''[]'',
                 lastSaveTime := Time 64135596800000000000\<rparr>, tr) =
     (None,
      NewStorage\<lparr>debounceInterval := 50 * Millisecond, lastSavedData := Some ''[]'',
                 lastSaveTime := Time 64135596800000000000\<rparr>, tr)"
  "SaveInstances calm_env [zero_Instance\<lparr>Title := ''example'', started := True\<rparr>]
     (NewStorage\<lparr>debounceInterval := 50 * Millisecond, lastSavedData := Some ''[]'',
                 lastSaveTime := Time 64135596800000000000\<rparr>, tr) =
     (None,
      NewStorage\<lparr>debounceInterval := 50 * Millisecond, lastSavedData := Some ''[]'',
                 lastSaveTime := Time 64135596800000000000, pendingData := Some ''[{}]'',
                 debounceTimer := Some Second\<rparr>,
      tr @ [(Time_Now, R_time (Time 64135596800000000000)),
            (Time_Now, R_time (Time 64135596800000000000)),
            (Timer_AfterFunc Second, R_unit)])"
  "Flush calm_env
     (NewStorage\<lparr>debounceInterval := 50 * Millisecond, lastSavedData := Some ''[]'',
                 lastSaveTime := Time 64135596800000000000, pendingData := Some ''[{}]'',
                 debounceTimer := Some Second\<rparr>, tr) =
     (None,
      NewStorage\<lparr>debounceInterval := 50 * Millisecond, lastSavedData := Some ''[{}]'',
                 lastSaveTime := Time 64135596800000000000\<rparr>,
      tr @ [(Store_SaveInstances (Some ''[{}]''), R_err None),
            (Time_Now, R_time (Time 64135596800000000000)), (Timer_Stop, R_unit)])"
  by (simp_all add: SaveInstances_def SaveInstances_locked_def Flush_def time_Now_def
      writeLocked_def call_err_def trackImmediateSave_def stop_timer_def logged_def
      calm_env_def NewStorage_def bytes_Equal_def cloneBytes_def len_def IsZero_def
      zero_Time_def Sub_def Let_def Second_def Millisecond_def maxDuration_def minDuration_def
      wrap64_def Started_def ToInstanceData_def zero_Instance_def)

text \<open>The pending buffer is never an empty slice that is not \<open>nil\<close>.\<close>

lemma pending_not_empty_slice:
  assumes "pendingData s \<noteq> Some []"
  shows "pendingData (fst (snd (SaveInstances_locked E b (s, tr)))) \<noteq> Some []"
    and "pendingData (fst (snd (Flush E (s, tr)))) \<noteq> Some []"
    and "pendingData (fst (flushPending E (s, tr))) \<noteq> Some []"
  using assms
  by (auto simp: SaveInstances_locked_def Flush_def flushPending_def Let_def time_Now_def
      writeLocked_def call_err_def trackImmediateSave_def stop_timer_def logged_def
      cloneBytes_def len_def split: option.splits if_splits)

end
